theory Spec2Isabelle
  imports Complex_Main
begin

section \<open>JavaScript values of the token manager\<close>

text \<open>
  A JavaScript number is an IEEE 754 double: a finite value (a rational), \<open>NaN\<close>,
  \<open>Infinity\<close> or \<open>-Infinity\<close>. Every arithmetic operation computes the exact result
  and rounds it to the nearest double, ties to the even significand (\<open>to_double\<close>). The
  sign of zero is not modelled: nothing here tells \<open>-0\<close> from \<open>0\<close>. A property that may
  be \<open>undefined\<close> is an \<open>option\<close>.
\<close>

datatype number = Num rat | NaN | PosInf | NegInf

text \<open>The number of binary digits of a positive integer.\<close>

function bits :: "int \<Rightarrow> int" where
  "bits n = (if n \<le> 0 then 0 else 1 + bits (n div 2))"
  by pat_completeness auto
termination
  by (relation "measure nat") auto

declare bits.simps [simp del]

text \<open>For \<open>a > 0\<close>, the exponent \<open>e\<close> with \<open>2^e \<le> a < 2^(e+1)\<close>.\<close>

definition exponent :: "rat \<Rightarrow> int" where
  "exponent a =
     (if 1 \<le> a then bits \<lfloor>a\<rfloor> - 1 else - bits (\<lceil>1 / a\<rceil> - 1))"

definition round_half_even :: "rat \<Rightarrow> int" where
  "round_half_even m =
     (let f = \<lfloor>m\<rfloor>; d = m - of_int f in
      if d < 1 / 2 then f else if 1 / 2 < d then f + 1 else if even f then f else f + 1)"

text \<open>
  The double nearest to a rational. An integer of magnitude up to \<open>2^53\<close> is a double.
  Otherwise the value is rounded to 53 significant bits (fewer below \<open>2^-1022\<close>, where
  the spacing stays \<open>2^-1074\<close>), and a result of \<open>2^1024\<close> or more is infinite.
\<close>

definition to_double :: "rat \<Rightarrow> number" where
  "to_double q =
     (if of_int \<lfloor>q\<rfloor> = q \<and> \<bar>q\<bar> \<le> 9007199254740992 then Num q
      else
        (let a = \<bar>q\<bar>;
             u = power_int 2 (max (exponent a) (- 1022) - 52);
             v = of_int (round_half_even (a / u)) * u
         in if 2 ^ 1024 \<le> v then (if q < 0 then NegInf else PosInf)
            else Num (if q < 0 then - v else v)))"

fun num_neg :: "number \<Rightarrow> number" where
  "num_neg (Num a) = Num (- a)"
| "num_neg NaN = NaN"
| "num_neg PosInf = NegInf"
| "num_neg NegInf = PosInf"

fun num_add :: "number \<Rightarrow> number \<Rightarrow> number" where
  "num_add (Num a) (Num b) = to_double (a + b)"
| "num_add NaN y = NaN"
| "num_add x NaN = NaN"
| "num_add PosInf NegInf = NaN"
| "num_add NegInf PosInf = NaN"
| "num_add PosInf y = PosInf"
| "num_add NegInf y = NegInf"
| "num_add (Num a) y = y"

definition num_sub :: "number \<Rightarrow> number \<Rightarrow> number" where
  "num_sub x y = num_add x (num_neg y)"

text \<open>The product with an infinite factor: \<open>NaN\<close> for zero, else infinite with the sign of
  the product.\<close>

definition infinite_times :: "bool \<Rightarrow> rat \<Rightarrow> number" where
  "infinite_times positive b =
     (if b = 0 then NaN else if (0 < b) = positive then PosInf else NegInf)"

fun num_mul :: "number \<Rightarrow> number \<Rightarrow> number" where
  "num_mul (Num a) (Num b) = to_double (a * b)"
| "num_mul NaN y = NaN"
| "num_mul x NaN = NaN"
| "num_mul PosInf (Num b) = infinite_times True b"
| "num_mul NegInf (Num b) = infinite_times False b"
| "num_mul (Num a) PosInf = infinite_times True a"
| "num_mul (Num a) NegInf = infinite_times False a"
| "num_mul PosInf PosInf = PosInf"
| "num_mul NegInf NegInf = PosInf"
| "num_mul PosInf NegInf = NegInf"
| "num_mul NegInf PosInf = NegInf"

text \<open>\<open>a >= b\<close> and \<open>a < b\<close> of JavaScript: both are false as soon as one side is \<open>NaN\<close>.\<close>

fun num_ge :: "number \<Rightarrow> number \<Rightarrow> bool" where
  "num_ge (Num a) (Num b) = (b \<le> a)"
| "num_ge NaN y = False"
| "num_ge x NaN = False"
| "num_ge PosInf y = True"
| "num_ge x NegInf = True"
| "num_ge x PosInf = False"
| "num_ge NegInf y = False"

fun num_lt :: "number \<Rightarrow> number \<Rightarrow> bool" where
  "num_lt (Num a) (Num b) = (a < b)"
| "num_lt NaN y = False"
| "num_lt x NaN = False"
| "num_lt PosInf y = False"
| "num_lt x NegInf = False"
| "num_lt x PosInf = True"
| "num_lt NegInf y = True"

text \<open>Truthiness of a string property: \<open>undefined\<close> and the empty string are falsy.\<close>

fun truthy :: "string option \<Rightarrow> bool" where
  "truthy None = False"
| "truthy (Some s) = (s \<noteq> [])"

text \<open>A template literal \<open>`${x}`\<close> prints \<open>undefined\<close> for a missing value.\<close>

fun template :: "string option \<Rightarrow> string" where
  "template None = ''undefined''"
| "template (Some s) = s"

section \<open>Data model\<close>

text \<open>The interface \<open>OAuth2Token\<close>. At run time \<open>access_token\<close> is whatever the token
  endpoint's body held under that name, so it may be \<open>undefined\<close> as well.\<close>

record OAuth2Token =
  access_token :: "string option"
  refresh_token :: "string option"
  expires_at :: number
  token_type :: string

text \<open>The JSON body of the token endpoint, \<open>response.data\<close>: the four properties the code
  reads. The three it uses as strings may be missing. \<open>resp_expires_in\<close> is the number
  that the multiplication \<open>response.data.expires_in * 1000\<close> makes of the property: its
  value when it is a number, \<open>NaN\<close> when it is missing or not numeric, \<open>0\<close> when it is
  \<open>null\<close>. A body that is not a JSON object (a string, say) has no property at all.
  \<open>NullData\<close> is \<open>response.data = null\<close>, where reading a property throws.\<close>

record token_fields =
  resp_access_token :: "string option"
  resp_refresh_token :: "string option"
  resp_expires_in :: number
  resp_token_type :: "string option"

datatype token_data = NullData | Fields token_fields

text \<open>What the token endpoint answers to one POST: no answer at all (network error,
  timeout), or a status and a body.\<close>

datatype token_reply = TokenNetworkError | TokenReply nat token_data

datatype grant = ClientCredentials | RefreshTokenGrant string

text \<open>An API request as the interceptors see it, and what the API answers. The URL is
  the template literal of the handler: its literal parts, and the values it interpolates.\<close>

datatype segment = Lit string | Val "number option"

datatype param = PNum number | PStr string | PBool bool | PList "string list"

record request_config =
  http_method :: string
  url :: "segment list"
  params :: "(string \<times> param) list"
  authorization :: "string option"

record response =
  status :: nat
  payload :: string

datatype api_reply = ApiNetworkError | ApiReply nat string

text \<open>The errors that travel through the promise chains: the \<open>McpError\<close> of
  \<open>getAccessToken\<close> (the spec's AuthenticationFailure), an \<open>AxiosError\<close> with
  \<open>error.response?.status\<close> and \<open>error.config\<close>, the \<open>TypeError\<close> of destructuring
  \<open>undefined\<close>, and the \<open>McpError\<close> "Unexpected error" that the tool dispatcher makes of
  it.\<close>

datatype error = AuthenticationFailure | AxiosError "nat option" request_config | TypeError
  | UnexpectedError

datatype 'a outcome = Return 'a | Throw error

text \<open>
  The world outside the process: the clock, the token endpoint and the API. The
  \<open>i\<close>-th call of \<open>Date.now()\<close> reads \<open>dateNow i\<close>, a whole number of milliseconds; the \<open>i\<close>-th POST to the token
  endpoint is answered by \<open>tokenEndpoint i\<close>, the \<open>i\<close>-th API request by \<open>transport i\<close>.
\<close>

record env =
  dateNow :: "nat \<Rightarrow> int"
  tokenEndpoint :: "nat \<Rightarrow> grant \<Rightarrow> token_reply"
  transport :: "nat \<Rightarrow> request_config \<Rightarrow> api_reply"

text \<open>
  The state of a \<open>MauticServer\<close>: the field \<open>token\<close>, and the history of what the
  process did to the outside (clock reads, POSTs to the token endpoint, API requests put
  on the wire), in the order it happened.
\<close>

record server =
  token :: "OAuth2Token option"
  ticks :: nat
  posts :: "grant list"
  sent :: "request_config list"

definition initial :: server where
  "initial = \<lparr>token = None, ticks = 0, posts = [], sent = []\<rparr>"

section \<open>The token lifecycle\<close>

definition Date_now :: "env \<Rightarrow> server \<Rightarrow> int \<times> server" where
  "Date_now e s = (dateNow e (ticks s), s\<lparr>ticks := Suc (ticks s)\<rparr>)"

text \<open>axios' default \<open>validateStatus\<close>: a status outside 200..299 rejects.\<close>

definition validateStatus :: "nat \<Rightarrow> bool" where
  "validateStatus st = (200 \<le> st \<and> st < 300)"

text \<open>\<open>axios.post(MAUTIC_TOKEN_ENDPOINT, ...)\<close>: \<open>None\<close> when the promise rejects,
  \<open>response.data\<close> otherwise.\<close>

definition axios_post :: "env \<Rightarrow> grant \<Rightarrow> server \<Rightarrow> token_data option \<times> server" where
  "axios_post e g s =
     (let s1 = s\<lparr>posts := posts s @ [g]\<rparr> in
      case tokenEndpoint e (length (posts s)) g of
        TokenNetworkError \<Rightarrow> (None, s1)
      | TokenReply st d \<Rightarrow> (if validateStatus st then (Some d, s1) else (None, s1)))"

text \<open>\<open>Date.now() + (response.data.expires_in * 1000) - 60000\<close>\<close>

definition expiry :: "int \<Rightarrow> number \<Rightarrow> number" where
  "expiry now expires_in =
     num_sub (num_add (Num (of_int now)) (num_mul expires_in (Num 1000))) (Num 60000)"

text \<open>\<open>response.data.token_type || 'Bearer'\<close>\<close>

definition token_type_or_Bearer :: "string option \<Rightarrow> string" where
  "token_type_or_Bearer t = (if truthy t then template t else ''Bearer'')"

text \<open>The object literal that \<open>getAccessToken\<close> assigns to \<open>this.token\<close>.\<close>

definition acquired :: "token_fields \<Rightarrow> int \<Rightarrow> OAuth2Token" where
  "acquired d now =
     \<lparr>access_token = resp_access_token d,
      refresh_token = resp_refresh_token d,
      expires_at = expiry now (resp_expires_in d),
      token_type = token_type_or_Bearer (resp_token_type d)\<rparr>"

definition getAccessToken :: "env \<Rightarrow> server \<Rightarrow> unit outcome \<times> server" where
  "getAccessToken e s =
     (case axios_post e ClientCredentials s of
        (None, s1) \<Rightarrow> (Throw AuthenticationFailure, s1)
      | (Some NullData, s1) \<Rightarrow> (Throw AuthenticationFailure, s1)
      | (Some (Fields d), s1) \<Rightarrow>
          (case Date_now e s1 of
             (now, s2) \<Rightarrow> (Return (), s2\<lparr>token := Some (acquired d now)\<rparr>)))"

text \<open>The token the refresh branch stores: \<open>response.data.refresh_token ||
  this.token.refresh_token\<close> keeps the old refresh token when the new one is falsy.\<close>

definition refreshed :: "OAuth2Token \<Rightarrow> token_fields \<Rightarrow> int \<Rightarrow> OAuth2Token" where
  "refreshed t d now =
     \<lparr>access_token = resp_access_token d,
      refresh_token = (if truthy (resp_refresh_token d) then resp_refresh_token d
                       else refresh_token t),
      expires_at = expiry now (resp_expires_in d),
      token_type = token_type_or_Bearer (resp_token_type d)\<rparr>"

definition refreshToken :: "env \<Rightarrow> server \<Rightarrow> unit outcome \<times> server" where
  "refreshToken e s =
     (case token s of
        None \<Rightarrow> getAccessToken e s
      | Some t \<Rightarrow>
          (case refresh_token t of
             None \<Rightarrow> getAccessToken e s
           | Some r \<Rightarrow>
               if r = [] then getAccessToken e s
               else
                 (case axios_post e (RefreshTokenGrant r) s of
                    (None, s1) \<Rightarrow> getAccessToken e s1
                  | (Some NullData, s1) \<Rightarrow> getAccessToken e s1
                  | (Some (Fields d), s1) \<Rightarrow>
                      (case Date_now e s1 of
                         (now, s2) \<Rightarrow> (Return (), s2\<lparr>token := Some (refreshed t d now)\<rparr>)))))"

text \<open>\<open>!this.token || Date.now() >= this.token.expires_at\<close> reads the clock only when a
  token is stored.\<close>

definition ensureValidToken :: "env \<Rightarrow> server \<Rightarrow> unit outcome \<times> server" where
  "ensureValidToken e s =
     (case token s of
        None \<Rightarrow> getAccessToken e s
      | Some t \<Rightarrow>
          (case Date_now e s of
             (now, s1) \<Rightarrow>
               if num_ge (Num (of_int now)) (expires_at t)
               then (if truthy (refresh_token t) then refreshToken e s1
                     else getAccessToken e s1)
               else (Return (), s1)))"

section \<open>The interceptors of the axios instance\<close>

text \<open>The request interceptor of \<open>setupAxiosInterceptors\<close>: it rejects with the error of
  \<open>ensureValidToken\<close>, and otherwise writes the header with the literal scheme
  \<open>Bearer\<close>.\<close>

definition bearer :: "OAuth2Token option \<Rightarrow> string" where
  "bearer tok = ''Bearer '' @ template (case tok of None \<Rightarrow> None | Some t \<Rightarrow> access_token t)"

definition requestInterceptor :: "env \<Rightarrow> request_config \<Rightarrow> server \<Rightarrow> request_config outcome \<times> server" where
  "requestInterceptor e config s =
     (case ensureValidToken e s of
        (Throw err, s1) \<Rightarrow> (Throw err, s1)
      | (Return _, s1) \<Rightarrow>
          (case token s1 of
             None \<Rightarrow> (Return config, s1)
           | Some t \<Rightarrow> (Return (config\<lparr>authorization := Some (bearer (Some t))\<rparr>), s1)))"

text \<open>The adapter puts the request on the wire; a network error or a status that
  \<open>validateStatus\<close> refuses rejects with an \<open>AxiosError\<close> that carries the request as
  \<open>error.config\<close>.\<close>

definition dispatchRequest :: "env \<Rightarrow> request_config \<Rightarrow> server \<Rightarrow> response outcome \<times> server" where
  "dispatchRequest e config s =
     (let s1 = s\<lparr>sent := sent s @ [config]\<rparr> in
      case transport e (length (sent s)) config of
        ApiNetworkError \<Rightarrow> (Throw (AxiosError None config), s1)
      | ApiReply st body \<Rightarrow>
          if validateStatus st then (Return \<lparr>status = st, payload = body\<rparr>, s1)
          else (Throw (AxiosError (Some st) config), s1))"

text \<open>\<open>this.token?.refresh_token\<close> as a condition.\<close>

definition refresh_token_known :: "server \<Rightarrow> bool" where
  "refresh_token_known s = (case token s of None \<Rightarrow> False | Some t \<Rightarrow> truthy (refresh_token t))"

text \<open>
  The rejection handler of the response interceptor. \<open>retry\<close> stands for
  \<open>this.axiosInstance.request\<close>, the instance the interceptors are installed on. The
  promise of the retried request is returned without \<open>await\<close>, so the \<open>catch\<close> only sees
  an error of \<open>refreshToken\<close>; it logs it, and the original error is rejected. An error
  of the adapter always has its \<open>config\<close>, so \<open>if (originalRequest)\<close> holds whenever it is
  reached; an error without \<open>response\<close> has no status and is rejected as it is.
\<close>

definition responseRejected ::
  "(request_config \<Rightarrow> server \<Rightarrow> (response outcome \<times> server) option) \<Rightarrow> env \<Rightarrow> error \<Rightarrow> server
     \<Rightarrow> (response outcome \<times> server) option" where
  "responseRejected retry e err s =
     (case err of
        AxiosError (Some st) originalRequest \<Rightarrow>
          if st = 401 \<and> refresh_token_known s then
            (case refreshToken e s of
               (Throw refreshError, s1) \<Rightarrow> Some (Throw err, s1)
             | (Return _, s1) \<Rightarrow>
                 retry (originalRequest\<lparr>authorization := Some (bearer (token s1))\<rparr>) s1)
          else Some (Throw err, s)
      | _ \<Rightarrow> Some (Throw err, s))"

text \<open>
  \<open>axiosInstance.request(config)\<close>: the request interceptor, the adapter, then the response
  interceptor. A rejection of the request interceptor skips the adapter and reaches the
  rejection handler of the response interceptor as well. The first argument bounds the
  number of times the chain may be entered: \<open>None\<close> means that the bound was reached
  before the promise settled.
\<close>

fun request :: "nat \<Rightarrow> env \<Rightarrow> request_config \<Rightarrow> server \<Rightarrow> (response outcome \<times> server) option" where
  "request 0 e config s = None"
| "request (Suc k) e config s =
     (case requestInterceptor e config s of
        (Throw err, s1) \<Rightarrow> responseRejected (\<lambda>c s'. request k e c s') e err s1
      | (Return config1, s1) \<Rightarrow>
          (case dispatchRequest e config1 s1 of
             (Return r, s2) \<Rightarrow> Some (Return r, s2)
           | (Throw err, s2) \<Rightarrow> responseRejected (\<lambda>c s'. request k e c s') e err s2))"

section \<open>The list and search tools\<close>

text \<open>The argument object of a tool call, with the properties the eight handlers read,
  typed as the input schemas declare them; each may be missing.\<close>

record tool_args =
  search :: "string option"
  limit :: "number option"
  start :: "number option"
  orderBy :: "string option"
  orderByDir :: "string option"
  publishedOnly :: "bool option"
  minimal :: "bool option"
  formId :: "number option"
  segmentId :: "number option"
  contactId :: "number option"
  dateFrom :: "string option"
  dateTo :: "string option"
  includeEvents :: "string list option"
  excludeEvents :: "string list option"

text \<open>\<open>args?.p\<close>: \<open>undefined\<close> when \<open>args\<close> itself is.\<close>

definition opt :: "tool_args option \<Rightarrow> (tool_args \<Rightarrow> 'a option) \<Rightarrow> 'a option" where
  "opt args p = (case args of None \<Rightarrow> None | Some a \<Rightarrow> p a)"

text \<open>Truthiness of a number: zero and \<open>NaN\<close> are falsy. \<open>Math.min\<close> is \<open>NaN\<close> as
  soon as one argument is.\<close>

fun truthy_number :: "number option \<Rightarrow> bool" where
  "truthy_number None = False"
| "truthy_number (Some (Num n)) = (n \<noteq> 0)"
| "truthy_number (Some NaN) = False"
| "truthy_number (Some PosInf) = True"
| "truthy_number (Some NegInf) = True"

definition Math_min :: "number \<Rightarrow> number \<Rightarrow> number" where
  "Math_min a b = (if a = NaN \<or> b = NaN then NaN else if num_ge b a then a else b)"

text \<open>\<open>if (v) params.k = v\<close>, for each type of \<open>v\<close>: the entry that is added to
  \<open>params\<close>, if any. An array is truthy even when empty.\<close>

fun str_entry :: "string \<Rightarrow> string option \<Rightarrow> (string \<times> param) list" where
  "str_entry k (Some v) = (if v \<noteq> [] then [(k, PStr v)] else [])"
| "str_entry k None = []"

fun num_entry :: "string \<Rightarrow> number option \<Rightarrow> (string \<times> param) list" where
  "num_entry k (Some v) = (if truthy_number (Some v) then [(k, PNum v)] else [])"
| "num_entry k None = []"

fun bool_entry :: "string \<Rightarrow> bool option \<Rightarrow> (string \<times> param) list" where
  "bool_entry k (Some v) = (if v then [(k, PBool v)] else [])"
| "bool_entry k None = []"

fun list_entry :: "string \<Rightarrow> string list option \<Rightarrow> (string \<times> param) list" where
  "list_entry k (Some v) = [(k, PList v)]"
| "list_entry k None = []"

text \<open>\<open>if (limit) params.limit = Math.min(limit, 200)\<close>\<close>

fun limit_entry :: "number option \<Rightarrow> (string \<times> param) list" where
  "limit_entry (Some v) =
     (if truthy_number (Some v) then [(''limit'', PNum (Math_min v (Num 200)))] else [])"
| "limit_entry None = []"

definition get_config :: "segment list \<Rightarrow> (string \<times> param) list \<Rightarrow> request_config" where
  "get_config u ps = \<lparr>http_method = ''get'', url = u, params = ps, authorization = None\<rparr>"

text \<open>The request each handler hands to \<open>this.axiosInstance.get\<close>. The handlers that
  destructure \<open>args\<close> throw a \<open>TypeError\<close> when it is \<open>undefined\<close>.\<close>

definition searchContacts_config :: "tool_args option \<Rightarrow> request_config outcome" where
  "searchContacts_config args =
     Return (get_config [Lit ''/contacts'']
       (str_entry ''search'' (opt args search) @ limit_entry (opt args limit)
        @ num_entry ''start'' (opt args start) @ str_entry ''orderBy'' (opt args orderBy)
        @ str_entry ''orderByDir'' (opt args orderByDir)
        @ bool_entry ''publishedOnly'' (opt args publishedOnly)
        @ bool_entry ''minimal'' (opt args minimal)))"

definition list_params :: "tool_args option \<Rightarrow> (string \<times> param) list" where
  "list_params args =
     str_entry ''search'' (opt args search) @ limit_entry (opt args limit)
     @ num_entry ''start'' (opt args start)
     @ bool_entry ''publishedOnly'' (opt args publishedOnly)"

definition listCampaigns_config :: "tool_args option \<Rightarrow> request_config outcome" where
  "listCampaigns_config args = Return (get_config [Lit ''/campaigns''] (list_params args))"

definition listEmails_config :: "tool_args option \<Rightarrow> request_config outcome" where
  "listEmails_config args = Return (get_config [Lit ''/emails''] (list_params args))"

definition listForms_config :: "tool_args option \<Rightarrow> request_config outcome" where
  "listForms_config args = Return (get_config [Lit ''/forms''] (list_params args))"

definition listSegments_config :: "tool_args option \<Rightarrow> request_config outcome" where
  "listSegments_config args = Return (get_config [Lit ''/segments''] (list_params args))"

definition getFormSubmissions_config :: "tool_args option \<Rightarrow> request_config outcome" where
  "getFormSubmissions_config args =
     (case args of
        None \<Rightarrow> Throw TypeError
      | Some a \<Rightarrow>
          Return (get_config [Lit ''/forms/'', Val (formId a), Lit ''/submissions'']
            (limit_entry (limit a) @ num_entry ''start'' (start a)
             @ str_entry ''dateFrom'' (dateFrom a) @ str_entry ''dateTo'' (dateTo a))))"

definition getSegmentContacts_config :: "tool_args option \<Rightarrow> request_config outcome" where
  "getSegmentContacts_config args =
     (case args of
        None \<Rightarrow> Throw TypeError
      | Some a \<Rightarrow>
          Return (get_config [Lit ''/segments/'', Val (segmentId a), Lit ''/contacts'']
            (limit_entry (limit a) @ num_entry ''start'' (start a))))"

definition getContactActivity_config :: "tool_args option \<Rightarrow> request_config outcome" where
  "getContactActivity_config args =
     (case args of
        None \<Rightarrow> Throw TypeError
      | Some a \<Rightarrow>
          Return (get_config [Lit ''/contacts/'', Val (contactId a), Lit ''/activity'']
            (str_entry ''search'' (search a) @ list_entry ''includeEvents'' (includeEvents a)
             @ list_entry ''excludeEvents'' (excludeEvents a)
             @ str_entry ''dateFrom'' (dateFrom a) @ str_entry ''dateTo'' (dateTo a)
             @ limit_entry (limit a))))"

text \<open>\<open>await this.axiosInstance.get(url, { params })\<close> on the request a handler built.\<close>

definition axiosInstance_get ::
  "nat \<Rightarrow> env \<Rightarrow> request_config outcome \<Rightarrow> server \<Rightarrow> (response outcome \<times> server) option" where
  "axiosInstance_get k e c s =
     (case c of Throw err \<Rightarrow> Some (Throw err, s) | Return config \<Rightarrow> request k e config s)"

text \<open>
  The eight handlers with a \<open>limit\<close> argument. Each awaits the request it built and
  then returns a text made of properties of \<open>response.data\<close>. Reading them throws a
  \<open>TypeError\<close> when \<open>response.data\<close> is \<open>null\<close>, which is what axios makes of a
  body that is the JSON text \<open>null\<close>, white space around it or not. The text itself is
  not modelled: the result is the response.
\<close>

definition JSON_whitespace :: "char \<Rightarrow> bool" where
  "JSON_whitespace c = (c \<in> set [CHR '' '', CHR 0x09, CHR 0x0A, CHR 0x0D])"

definition data_is_null :: "string \<Rightarrow> bool" where
  "data_is_null body =
     (dropWhile JSON_whitespace (rev (dropWhile JSON_whitespace (rev body))) = ''null'')"

definition text_content ::
  "(response outcome \<times> server) option \<Rightarrow> (response outcome \<times> server) option" where
  "text_content x =
     (case x of
        None \<Rightarrow> None
      | Some (Return r, s) \<Rightarrow>
          if data_is_null (payload r) then Some (Throw TypeError, s) else Some (Return r, s)
      | Some (Throw err, s) \<Rightarrow> Some (Throw err, s))"

type_synonym handler =
  "nat \<Rightarrow> env \<Rightarrow> tool_args option \<Rightarrow> server \<Rightarrow> (response outcome \<times> server) option"

definition searchContacts :: handler where
  "searchContacts k e args s = text_content (axiosInstance_get k e (searchContacts_config args) s)"

definition listCampaigns :: handler where
  "listCampaigns k e args s = text_content (axiosInstance_get k e (listCampaigns_config args) s)"

definition listEmails :: handler where
  "listEmails k e args s = text_content (axiosInstance_get k e (listEmails_config args) s)"

definition listForms :: handler where
  "listForms k e args s = text_content (axiosInstance_get k e (listForms_config args) s)"

definition getFormSubmissions :: handler where
  "getFormSubmissions k e args s = text_content (axiosInstance_get k e (getFormSubmissions_config args) s)"

definition listSegments :: handler where
  "listSegments k e args s = text_content (axiosInstance_get k e (listSegments_config args) s)"

definition getSegmentContacts :: handler where
  "getSegmentContacts k e args s = text_content (axiosInstance_get k e (getSegmentContacts_config args) s)"

definition getContactActivity :: handler where
  "getContactActivity k e args s = text_content (axiosInstance_get k e (getContactActivity_config args) s)"

text \<open>The \<open>switch\<close> of the request handler, for the names of these eight tools.\<close>

datatype tool = search_contacts | list_campaigns | list_emails | list_forms
  | get_form_submissions | list_segments | get_segment_contacts | get_contact_activity

fun handle :: "tool \<Rightarrow> handler" where
  "handle search_contacts = searchContacts"
| "handle list_campaigns = listCampaigns"
| "handle list_emails = listEmails"
| "handle list_forms = listForms"
| "handle get_form_submissions = getFormSubmissions"
| "handle list_segments = listSegments"
| "handle get_segment_contacts = getSegmentContacts"
| "handle get_contact_activity = getContactActivity"

text \<open>
  The request handler for tool calls: the \<open>switch\<close> inside \<open>try\<close>, and the \<open>catch\<close>.
  An \<open>McpError\<close> is thrown again, an axios error becomes a result marked \<open>isError\<close>,
  and anything else becomes the \<open>McpError\<close> "Unexpected error".
\<close>

datatype tool_result = Content response | IsError error

definition callTool ::
  "tool \<Rightarrow> nat \<Rightarrow> env \<Rightarrow> tool_args option \<Rightarrow> server \<Rightarrow> (tool_result outcome \<times> server) option" where
  "callTool t k e args s =
     (case handle t k e args s of
        None \<Rightarrow> None
      | Some (Return r, s') \<Rightarrow> Some (Return (Content r), s')
      | Some (Throw err, s') \<Rightarrow>
          (case err of
             AuthenticationFailure \<Rightarrow> Some (Throw err, s')
           | UnexpectedError \<Rightarrow> Some (Throw err, s')
           | AxiosError st c \<Rightarrow> Some (Return (IsError err), s')
           | TypeError \<Rightarrow> Some (Throw UnexpectedError, s')))"

text \<open>The request the handler of a tool builds.\<close>

fun tool_config :: "tool \<Rightarrow> tool_args option \<Rightarrow> request_config outcome" where
  "tool_config search_contacts = searchContacts_config"
| "tool_config list_campaigns = listCampaigns_config"
| "tool_config list_emails = listEmails_config"
| "tool_config list_forms = listForms_config"
| "tool_config get_form_submissions = getFormSubmissions_config"
| "tool_config list_segments = listSegments_config"
| "tool_config get_segment_contacts = getSegmentContacts_config"
| "tool_config get_contact_activity = getContactActivity_config"

section \<open>Vocabulary of the properties\<close>

text \<open>The next POST with grant \<open>g\<close> fails in the eyes of the code: the promise of
  \<open>axios.post\<close> rejects (no answer, or a status outside 200..299), or the body is
  \<open>null\<close>, so that reading \<open>response.data.access_token\<close> throws inside the \<open>try\<close>.\<close>

definition post_fails :: "env \<Rightarrow> grant \<Rightarrow> server \<Rightarrow> bool" where
  "post_fails e g s =
     (case tokenEndpoint e (length (posts s)) g of
        TokenNetworkError \<Rightarrow> True
      | TokenReply st d \<Rightarrow> \<not> validateStatus st \<or> d = NullData)"

text \<open>
  The expiry of a token granted at the instant \<open>now\<close> for a whole number \<open>n\<close> of seconds
  is computed without rounding: the product, the sum and the difference are integers of
  magnitude up to \<open>2^53\<close>.
\<close>

definition exactly :: "int \<Rightarrow> bool" where
  "exactly z = (\<bar>z\<bar> \<le> 9007199254740992)"

definition in_range :: "int \<Rightarrow> int \<Rightarrow> bool" where
  "in_range now n =
     (exactly (n * 1000) \<and> exactly (now + n * 1000) \<and> exactly (now + n * 1000 - 60000))"





text \<open>The last POST was a \<open>client_credentials\<close> grant, and it failed.\<close>

definition acquisition_failed :: "env \<Rightarrow> server \<Rightarrow> bool" where
  "acquisition_failed e s =
     (posts s \<noteq> [] \<and> last (posts s) = ClientCredentials
      \<and> post_fails e ClientCredentials (s\<lparr>posts := butlast (posts s)\<rparr>))"

text \<open>A Credential is valid at an instant: it has a non-empty access token, and expires
  strictly later.\<close>

definition valid_at :: "int \<Rightarrow> OAuth2Token \<Rightarrow> bool" where
  "valid_at now t = (truthy (access_token t) \<and> num_lt (Num (of_int now)) (expires_at t))"

text \<open>A request on the wire is the request \<open>c\<close> the caller made: same method, URL and
  query parameters, with an Authorization header of the scheme \<open>Bearer\<close>.\<close>

definition same_request :: "request_config \<Rightarrow> request_config \<Rightarrow> bool" where
  "same_request c q =
     (http_method q = http_method c \<and> url q = url c \<and> params q = params c
      \<and> (\<exists>a. authorization q = Some (''Bearer '' @ a)))"

section \<open>Concrete worlds\<close>

text \<open>A world with a given clock, whose token endpoint answers the two grants with fixed
  replies, and whose API answers by the number of the request. The clock \<open>noon\<close> stands
  still; \<open>readings xs\<close> reads the instants \<open>xs\<close> one after the other, and then stays at
  the last.\<close>

definition world ::
  "(nat \<Rightarrow> int) \<Rightarrow> token_reply \<Rightarrow> token_reply \<Rightarrow> (nat \<Rightarrow> api_reply) \<Rightarrow> env" where
  "world clock acq ref api =
     \<lparr>dateNow = clock,
      tokenEndpoint = (\<lambda>i g. case g of ClientCredentials \<Rightarrow> acq | RefreshTokenGrant r \<Rightarrow> ref),
      transport = (\<lambda>i c. api i)\<rparr>"

definition noon :: "nat \<Rightarrow> int" where
  "noon i = 1000000"

definition readings :: "int list \<Rightarrow> nat \<Rightarrow> int" where
  "readings xs i = xs ! min i (length xs - 1)"

definition always :: "nat \<Rightarrow> nat \<Rightarrow> api_reply" where
  "always st i = ApiReply st []"

definition unauthorized_until :: "nat \<Rightarrow> nat \<Rightarrow> api_reply" where
  "unauthorized_until n i = (if i < n then ApiReply 401 [] else ApiReply 200 [])"

definition granted :: "string \<Rightarrow> string option \<Rightarrow> int \<Rightarrow> string option \<Rightarrow> token_reply" where
  "granted a r n ty =
     TokenReply 200 (Fields \<lparr>resp_access_token = Some a, resp_refresh_token = r,
                              resp_expires_in = Num (of_int n), resp_token_type = ty\<rparr>)"

text \<open>The body of a reply that refuses a grant: an error object, with none of the
  properties of a token.\<close>

definition refusal :: token_fields where
  "refusal = \<lparr>resp_access_token = None, resp_refresh_token = None, resp_expires_in = NaN,
              resp_token_type = None\<rparr>"

definition holding :: "string \<Rightarrow> string option \<Rightarrow> int \<Rightarrow> server" where
  "holding a r x =
     \<lparr>token = Some \<lparr>access_token = Some a, refresh_token = r, expires_at = Num (of_int x),
                    token_type = ''Bearer''\<rparr>,
      ticks = 0, posts = [], sent = []\<rparr>"

definition contacts :: request_config where
  "contacts = get_config [Lit ''/contacts''] []"

text \<open>The entries of \<open>params\<close> under the key \<open>limit\<close>.\<close>

definition limit_params :: "request_config \<Rightarrow> (string \<times> param) list" where
  "limit_params c = filter (\<lambda>p. fst p = ''limit'') (params c)"

text \<open>
  The \<open>limit\<close> parameter as the specification words it: \<open>min(limit, 200)\<close> for a
  limit that is a number other than zero, and no parameter for a limit that is absent,
  zero or \<open>NaN\<close>, or when there is no argument object.
\<close>

definition claimed_limit :: "tool_args option \<Rightarrow> (string \<times> param) list" where
  "claimed_limit args =
     (case args of
        None \<Rightarrow> []
      | Some a \<Rightarrow>
          (case limit a of
             None \<Rightarrow> []
           | Some NaN \<Rightarrow> []
           | Some (Num n) \<Rightarrow> if n = 0 then [] else [(''limit'', PNum (Num (min n 200)))]
           | Some PosInf \<Rightarrow> [(''limit'', PNum (Num 200))]
           | Some NegInf \<Rightarrow> [(''limit'', PNum NegInf)]))"

text \<open>An argument object with no property set.\<close>

definition no_args :: tool_args where
  "no_args = \<lparr>search = None, limit = None, start = None, orderBy = None, orderByDir = None,
      publishedOnly = None, minimal = None, formId = None, segmentId = None, contactId = None,
      dateFrom = None, dateTo = None, includeEvents = None, excludeEvents = None\<rparr>"

text \<open>A world whose API answers 401 to every request, while the token endpoint grants
  every refresh.\<close>

definition rejecting :: env where
  "rejecting = world noon TokenNetworkError (granted ''A2'' None 3600 None) (always 401)"

section \<open>The token lifecycle, step by step\<close>

lemma getAccessToken_fails:
  "post_fails e ClientCredentials s \<Longrightarrow>
   getAccessToken e s = (Throw AuthenticationFailure, s\<lparr>posts := posts s @ [ClientCredentials]\<rparr>)"
  by (auto simp: post_fails_def getAccessToken_def axios_post_def Let_def split: token_reply.splits token_data.splits)

lemma getAccessToken_succeeds:
  "tokenEndpoint e (length (posts s)) ClientCredentials = TokenReply st (Fields d) \<Longrightarrow>
   validateStatus st \<Longrightarrow>
   getAccessToken e s =
     (Return (), s\<lparr>posts := posts s @ [ClientCredentials], ticks := Suc (ticks s),
                   token := Some (acquired d (dateNow e (ticks s)))\<rparr>)"
  by (simp add: getAccessToken_def axios_post_def Date_now_def)

lemma post_cases:
  "post_fails e g s \<or> (\<exists>st d. tokenEndpoint e (length (posts s)) g = TokenReply st (Fields d) \<and> validateStatus st)"
  by (cases "tokenEndpoint e (length (posts s)) g"; simp add: post_fails_def)
     (metis token_data.exhaust)

lemma refreshToken_fallback:
  "token s = Some t \<Longrightarrow> refresh_token t = Some r \<Longrightarrow> r \<noteq> [] \<Longrightarrow>
   post_fails e (RefreshTokenGrant r) s \<Longrightarrow>
   refreshToken e s = getAccessToken e (s\<lparr>posts := posts s @ [RefreshTokenGrant r]\<rparr>)"
  by (auto simp: post_fails_def refreshToken_def axios_post_def Let_def split: token_reply.splits token_data.splits)

lemma refreshToken_succeeds:
  "token s = Some t \<Longrightarrow> refresh_token t = Some r \<Longrightarrow> r \<noteq> [] \<Longrightarrow>
   tokenEndpoint e (length (posts s)) (RefreshTokenGrant r) = TokenReply st (Fields d) \<Longrightarrow>
   validateStatus st \<Longrightarrow>
   refreshToken e s =
     (Return (), s\<lparr>posts := posts s @ [RefreshTokenGrant r], ticks := Suc (ticks s),
                   token := Some (refreshed t d (dateNow e (ticks s)))\<rparr>)"
  by (simp add: refreshToken_def axios_post_def Date_now_def)

lemma refreshToken_no_refresh_token:
  "\<not> refresh_token_known s \<Longrightarrow> refreshToken e s = getAccessToken e s"
  by (auto simp: refresh_token_known_def refreshToken_def split: option.splits)

lemma getAccessToken_Throw:
  assumes "getAccessToken e s = (Throw err, s')"
  shows "err = AuthenticationFailure \<and> token s' = token s \<and> acquisition_failed e s'"
proof -
  from post_cases [of e ClientCredentials s] show ?thesis
  proof
    assume f: "post_fails e ClientCredentials s"
    from getAccessToken_fails [OF f] assms show ?thesis
      using f by (auto simp: acquisition_failed_def post_fails_def)
  next
    assume "\<exists>st d. tokenEndpoint e (length (posts s)) ClientCredentials = TokenReply st (Fields d) \<and> validateStatus st"
    then obtain st d where "tokenEndpoint e (length (posts s)) ClientCredentials = TokenReply st (Fields d)"
      and "validateStatus st" by blast
    from getAccessToken_succeeds [OF this] assms show ?thesis by simp
  qed
qed

lemma getAccessToken_Return:
  assumes "getAccessToken e s = (Return u, s')"
  shows "\<exists>st d. tokenEndpoint e (length (posts s)) ClientCredentials = TokenReply st (Fields d)
           \<and> validateStatus st
           \<and> s' = s\<lparr>posts := posts s @ [ClientCredentials], ticks := Suc (ticks s),
                     token := Some (acquired d (dateNow e (ticks s)))\<rparr>"
proof -
  from post_cases [of e ClientCredentials s] show ?thesis
  proof
    assume f: "post_fails e ClientCredentials s"
    from getAccessToken_fails [OF f] assms show ?thesis by simp
  next
    assume "\<exists>st d. tokenEndpoint e (length (posts s)) ClientCredentials = TokenReply st (Fields d) \<and> validateStatus st"
    then obtain st d where r: "tokenEndpoint e (length (posts s)) ClientCredentials = TokenReply st (Fields d)"
      and v: "validateStatus st" by blast
    from getAccessToken_succeeds [OF r v] assms r v show ?thesis by auto
  qed
qed

lemma refreshToken_Throw:
  assumes "refreshToken e s = (Throw err, s')"
  shows "err = AuthenticationFailure \<and> token s' = token s \<and> acquisition_failed e s'"
proof (cases "refresh_token_known s")
  case False
  with assms getAccessToken_Throw show ?thesis by (simp add: refreshToken_no_refresh_token)
next
  case True
  then obtain t r where t: "token s = Some t" "refresh_token t = Some r" "r \<noteq> []"
    by (auto simp: refresh_token_known_def split: option.splits elim: truthy.elims)
  from post_cases [of e "RefreshTokenGrant r" s] show ?thesis
  proof
    assume f: "post_fails e (RefreshTokenGrant r) s"
    from refreshToken_fallback [OF t f] assms
    have "getAccessToken e (s\<lparr>posts := posts s @ [RefreshTokenGrant r]\<rparr>) = (Throw err, s')" by simp
    from getAccessToken_Throw [OF this] show ?thesis by simp
  next
    assume "\<exists>st d. tokenEndpoint e (length (posts s)) (RefreshTokenGrant r) = TokenReply st (Fields d) \<and> validateStatus st"
    then obtain st d where "tokenEndpoint e (length (posts s)) (RefreshTokenGrant r) = TokenReply st (Fields d)"
      and "validateStatus st" by blast
    from refreshToken_succeeds [OF t this] assms show ?thesis by simp
  qed
qed

lemma refreshToken_Return:
  assumes "refreshToken e s = (Return u, s')"
  shows "\<exists>t. token s' = Some t"
proof (cases "refresh_token_known s")
  case False
  with assms have "getAccessToken e s = (Return u, s')" by (simp add: refreshToken_no_refresh_token)
  from getAccessToken_Return [OF this] show ?thesis by auto
next
  case True
  then obtain t r where t: "token s = Some t" "refresh_token t = Some r" "r \<noteq> []"
    by (auto simp: refresh_token_known_def split: option.splits elim: truthy.elims)
  from post_cases [of e "RefreshTokenGrant r" s] show ?thesis
  proof
    assume f: "post_fails e (RefreshTokenGrant r) s"
    from assms have "getAccessToken e (s\<lparr>posts := posts s @ [RefreshTokenGrant r]\<rparr>) = (Return u, s')"
      by (simp add: refreshToken_fallback [OF t f])
    from getAccessToken_Return [OF this] show ?thesis by auto
  next
    assume "\<exists>st d. tokenEndpoint e (length (posts s)) (RefreshTokenGrant r) = TokenReply st (Fields d) \<and> validateStatus st"
    then obtain st d where "tokenEndpoint e (length (posts s)) (RefreshTokenGrant r) = TokenReply st (Fields d)"
      and "validateStatus st" by blast
    from refreshToken_succeeds [OF t this] assms show ?thesis by auto
  qed
qed

lemma ensureValidToken_unfold:
  "ensureValidToken e s =
     (case token s of
        None \<Rightarrow> getAccessToken e s
      | Some t \<Rightarrow>
          if num_ge (Num (of_int (dateNow e (ticks s)))) (expires_at t)
          then (if truthy (refresh_token t) then refreshToken e (s\<lparr>ticks := Suc (ticks s)\<rparr>)
                else getAccessToken e (s\<lparr>ticks := Suc (ticks s)\<rparr>))
          else (Return (), s\<lparr>ticks := Suc (ticks s)\<rparr>))"
  by (simp add: ensureValidToken_def Date_now_def split: option.splits)

lemma ensureValidToken_Throw:
  assumes "ensureValidToken e s = (Throw err, s')"
  shows "err = AuthenticationFailure \<and> token s' = token s \<and> acquisition_failed e s'"
  using assms getAccessToken_Throw refreshToken_Throw
  by (fastforce simp: ensureValidToken_unfold split: option.splits if_splits)

lemma ensureValidToken_Return:
  assumes "ensureValidToken e s = (Return u, s')"
  shows "\<exists>t. token s' = Some t"
proof (cases "token s")
  case None
  with assms have "getAccessToken e s = (Return u, s')" by (simp add: ensureValidToken_unfold)
  from getAccessToken_Return [OF this] show ?thesis by auto
next
  case (Some t)
  let ?s1 = "s\<lparr>ticks := Suc (ticks s)\<rparr>"
  from Some assms
  have "refreshToken e ?s1 = (Return u, s') \<or> getAccessToken e ?s1 = (Return u, s') \<or> s' = ?s1"
    by (auto simp: ensureValidToken_unfold split: if_splits)
  then show ?thesis
    using refreshToken_Return [of e ?s1 u s'] getAccessToken_Return [of e ?s1 u s'] Some by auto
qed

subsection \<open>What is posted, and what is sent\<close>

lemma getAccessToken_posts: "\<exists>r s'. getAccessToken e s = (r, s') \<and> posts s' = posts s @ [ClientCredentials]"
  using post_cases [of e ClientCredentials s]
  by (auto simp: getAccessToken_fails getAccessToken_succeeds)

lemma refreshToken_posts:
  assumes "token s = Some t" and "refresh_token t = Some r" and "r \<noteq> []"
  shows "\<exists>u s' rest. refreshToken e s = (u, s') \<and> posts s' = posts s @ RefreshTokenGrant r # rest"
proof -
  from post_cases [of e "RefreshTokenGrant r" s] show ?thesis
  proof
    assume f: "post_fails e (RefreshTokenGrant r) s"
    from getAccessToken_posts [of e "s\<lparr>posts := posts s @ [RefreshTokenGrant r]\<rparr>"]
    show ?thesis by (auto simp: refreshToken_fallback [OF assms f])
  next
    assume "\<exists>st d. tokenEndpoint e (length (posts s)) (RefreshTokenGrant r) = TokenReply st (Fields d) \<and> validateStatus st"
    then obtain st d where "tokenEndpoint e (length (posts s)) (RefreshTokenGrant r) = TokenReply st (Fields d)"
      and "validateStatus st" by blast
    from refreshToken_succeeds [OF assms this] show ?thesis by simp
  qed
qed

lemma getAccessToken_sent: "sent (snd (getAccessToken e s)) = sent s"
  using post_cases [of e ClientCredentials s]
  by (auto simp: getAccessToken_fails getAccessToken_succeeds)

lemma refreshToken_sent: "sent (snd (refreshToken e s)) = sent s"
proof (cases "refresh_token_known s")
  case False
  then show ?thesis by (simp add: refreshToken_no_refresh_token getAccessToken_sent)
next
  case True
  then obtain t r where t: "token s = Some t" "refresh_token t = Some r" "r \<noteq> []"
    by (auto simp: refresh_token_known_def split: option.splits elim: truthy.elims)
  from post_cases [of e "RefreshTokenGrant r" s] show ?thesis
  proof
    assume f: "post_fails e (RefreshTokenGrant r) s"
    show ?thesis by (simp add: refreshToken_fallback [OF t f] getAccessToken_sent)
  next
    assume "\<exists>st d. tokenEndpoint e (length (posts s)) (RefreshTokenGrant r) = TokenReply st (Fields d) \<and> validateStatus st"
    then obtain st d where "tokenEndpoint e (length (posts s)) (RefreshTokenGrant r) = TokenReply st (Fields d)"
      and "validateStatus st" by blast
    from refreshToken_succeeds [OF t this] show ?thesis by simp
  qed
qed

lemma ensureValidToken_sent: "sent (snd (ensureValidToken e s)) = sent s"
  by (simp add: ensureValidToken_unfold getAccessToken_sent refreshToken_sent split: option.splits)

subsection \<open>Tokens that outlive the margin\<close>

lemma to_double_int: "exactly z \<Longrightarrow> to_double (of_int z) = Num (of_int z)"
proof -
  assume "exactly z"
  then have "\<bar>of_int z :: rat\<bar> \<le> of_int 9007199254740992"
    unfolding exactly_def of_int_abs [symmetric] by (rule of_int_le_iff [THEN iffD2])
  then show ?thesis by (simp add: to_double_def)
qed

lemma to_double_numeral:
  "exactly (numeral k) \<Longrightarrow> to_double (numeral k) = Num (numeral k)"
  "exactly (- numeral k) \<Longrightarrow> to_double (- numeral k) = Num (- numeral k)"
  "to_double 0 = Num 0"
  using to_double_int [of "numeral k"] to_double_int [of "- numeral k"] to_double_int [of 0]
  by (simp_all add: exactly_def)

lemma expiry_exact:
  assumes "in_range now n"
  shows "expiry now (Num (of_int n)) = Num (of_int (now + n * 1000 - 60000))"
proof -
  from assms have a: "exactly (n * 1000)" and b: "exactly (now + n * 1000)"
    and c: "exactly (now + n * 1000 - 60000)" by (simp_all add: in_range_def)
  have "num_mul (Num (of_int n)) (Num 1000) = to_double (of_int (n * 1000))" by simp
  also have "\<dots> = Num (of_int (n * 1000))" by (rule to_double_int [OF a])
  finally have m: "num_mul (Num (of_int n)) (Num 1000) = Num (of_int (n * 1000))" .
  have "num_add (Num (of_int now)) (Num (of_int (n * 1000))) = to_double (of_int (now + n * 1000))"
    by simp
  also have "\<dots> = Num (of_int (now + n * 1000))" by (rule to_double_int [OF b])
  finally have p: "num_add (Num (of_int now)) (Num (of_int (n * 1000))) = Num (of_int (now + n * 1000))" .
  have "num_sub (Num (of_int (now + n * 1000))) (Num 60000)
          = to_double (of_int (now + n * 1000 - 60000))"
    by (simp add: num_sub_def)
  also have "\<dots> = Num (of_int (now + n * 1000 - 60000))" by (rule to_double_int [OF c])
  finally show ?thesis by (simp only: expiry_def m p)
qed

lemma expiry_long:
  "60 < n \<Longrightarrow> in_range now n \<Longrightarrow> num_lt (Num (of_int now)) (expiry now (Num (of_int n)))"
  by (simp add: expiry_exact)








section \<open>The request chain, step by step\<close>

lemma requestInterceptor_Throw:
  "requestInterceptor e config s = (Throw err, s1) \<longleftrightarrow> ensureValidToken e s = (Throw err, s1)"
  by (cases "ensureValidToken e s") (auto simp: requestInterceptor_def split: outcome.splits option.splits)

lemma requestInterceptor_Return:
  "requestInterceptor e config s = (Return c1, s1) \<longleftrightarrow>
     (\<exists>t. ensureValidToken e s = (Return (), s1) \<and> token s1 = Some t
          \<and> c1 = config\<lparr>authorization := Some (''Bearer '' @ template (access_token t))\<rparr>)"
proof (cases "ensureValidToken e s")
  case (Pair r s')
  show ?thesis
  proof (cases r)
    case (Return u)
    with Pair ensureValidToken_Return [of e s u s'] show ?thesis
      by (auto simp: requestInterceptor_def bearer_def)
  next
    case (Throw err)
    with Pair show ?thesis by (simp add: requestInterceptor_def)
  qed
qed

lemma responseRejected_other:
  "st \<noteq> Some 401 \<or> \<not> refresh_token_known s \<Longrightarrow>
   responseRejected retry e (AxiosError st c) s = Some (Throw (AxiosError st c), s)"
  by (auto simp: responseRejected_def split: option.splits)

lemma responseRejected_McpError:
  "responseRejected retry e AuthenticationFailure s = Some (Throw AuthenticationFailure, s)"
  by (simp add: responseRejected_def)

lemma responseRejected_401:
  "refresh_token_known s \<Longrightarrow>
   responseRejected retry e (AxiosError (Some 401) c) s =
     (case refreshToken e s of
        (Throw refreshError, s1) \<Rightarrow> Some (Throw (AxiosError (Some 401) c), s1)
      | (Return u, s1) \<Rightarrow> retry (c\<lparr>authorization := Some (bearer (token s1))\<rparr>) s1)"
  by (simp add: responseRejected_def)

lemma dispatchRequest_unfold:
  "dispatchRequest e c s =
     (case transport e (length (sent s)) c of
        ApiNetworkError \<Rightarrow> (Throw (AxiosError None c), s\<lparr>sent := sent s @ [c]\<rparr>)
      | ApiReply st body \<Rightarrow>
          if validateStatus st then (Return \<lparr>status = st, payload = body\<rparr>, s\<lparr>sent := sent s @ [c]\<rparr>)
          else (Throw (AxiosError (Some st) c), s\<lparr>sent := sent s @ [c]\<rparr>))"
  by (simp add: dispatchRequest_def Let_def)

lemma same_request_auth [simp]:
  "same_request (c\<lparr>authorization := h\<rparr>) = same_request c"
  by (rule ext) (simp add: same_request_def)

lemma request_sent:
  "request k e c s = Some (r, s') \<Longrightarrow>
   \<exists>qs. sent s' = sent s @ qs \<and> list_all (same_request c) qs"
proof (induction k arbitrary: c s)
  case 0
  then show ?case by simp
next
  case (Suc k)
  show ?case
  proof (cases "requestInterceptor e c s")
    case (Pair i s1)
    have s1: "sent s1 = sent s"
      using ensureValidToken_sent [of e s] Pair
      by (cases i) (auto simp: requestInterceptor_Throw requestInterceptor_Return)
    show ?thesis
    proof (cases i)
      case (Throw err)
      with Pair have "ensureValidToken e s = (Throw err, s1)" by (simp add: requestInterceptor_Throw)
      from ensureValidToken_Throw [OF this] have "err = AuthenticationFailure" by simp
      with Suc.prems Pair Throw have "s' = s1" by (simp add: responseRejected_McpError)
      with s1 show ?thesis by simp
    next
      case (Return c1)
      with Pair have "requestInterceptor e c s = (Return c1, s1)" by simp
      then have "\<exists>t. ensureValidToken e s = (Return (), s1) \<and> token s1 = Some t
          \<and> c1 = c\<lparr>authorization := Some (''Bearer '' @ template (access_token t))\<rparr>"
        by (simp only: requestInterceptor_Return)
      then obtain t where "ensureValidToken e s = (Return (), s1) \<and> token s1 = Some t
          \<and> c1 = c\<lparr>authorization := Some (''Bearer '' @ template (access_token t))\<rparr>" ..
      then have c1: "c1 = c\<lparr>authorization := Some (''Bearer '' @ template (access_token t))\<rparr>"
        by (elim conjE)
      then have sr: "same_request c c1" by (simp add: same_request_def)
      let ?s2 = "s1\<lparr>sent := sent s1 @ [c1]\<rparr>"
      show ?thesis
      proof (cases "dispatchRequest e c1 s1")
        case d: (Pair o2 s2)
        then have s2: "s2 = ?s2"
          by (auto simp: dispatchRequest_unfold split: api_reply.splits if_splits)
        show ?thesis
        proof (cases o2)
          case r2: (Return resp)
          with Suc.prems Pair Return d have "s' = s2" by simp
          with s1 s2 sr show ?thesis by simp
        next
          case t2: (Throw err)
          with d obtain st where err: "err = AxiosError st c1"
            by (auto simp: dispatchRequest_unfold split: api_reply.splits if_splits)
          from Suc.prems Pair Return d t2
          have rr: "responseRejected (\<lambda>c s'. request k e c s') e err s2 = Some (r, s')" by simp
          show ?thesis
          proof (cases "st = Some 401 \<and> refresh_token_known s2")
            case False
            with rr err have "s' = s2" by (auto simp: responseRejected_other)
            with s1 s2 sr show ?thesis by simp
          next
            case True
            show ?thesis
            proof (cases "refreshToken e s2")
              case rf: (Pair o3 s3)
              with refreshToken_sent [of e s2] have s3: "sent s3 = sent s2" by simp
              show ?thesis
              proof (cases o3)
                case (Throw x)
                with rr err True rf have "s' = s3" by (simp add: responseRejected_401)
                with s1 s2 s3 sr show ?thesis by simp
              next
                case (Return u)
                with rr err True rf
                have "request k e (c1\<lparr>authorization := Some (bearer (token s3))\<rparr>) s3 = Some (r, s')"
                  by (simp add: responseRejected_401)
                from Suc.IH [OF this] obtain qs where
                  q1: "sent s' = sent s3 @ qs" and q2: "list_all (same_request c1) qs" by auto
                from q1 s1 s2 s3 have "sent s' = sent s @ (c1 # qs)" by simp
                moreover from q2 sr have "list_all (same_request c) (c1 # qs)" by (simp add: c1)
                ultimately show ?thesis by blast
              qed
            qed
          qed
        qed
      qed
    qed
  qed
qed

subsection \<open>An API that rejects every token\<close>

lemma rejecting_refreshToken:
  assumes "refresh_token_known s"
  shows "\<exists>s'. refreshToken rejecting s = (Return (), s') \<and> refresh_token_known s'"
proof -
  from assms obtain t r where t: "token s = Some t" "refresh_token t = Some r" "r \<noteq> []"
    by (auto simp: refresh_token_known_def split: option.splits elim: truthy.elims)
  have "tokenEndpoint rejecting (length (posts s)) (RefreshTokenGrant r)
          = TokenReply 200 (Fields \<lparr>resp_access_token = Some ''A2'', resp_refresh_token = None,
                                    resp_expires_in = Num 3600, resp_token_type = None\<rparr>)"
    by (simp add: rejecting_def world_def granted_def)
  from refreshToken_succeeds [OF t this] t show ?thesis
    by (simp add: validateStatus_def refresh_token_known_def refreshed_def)
qed

lemma rejecting_ensureValidToken:
  assumes "refresh_token_known s"
  shows "\<exists>s'. ensureValidToken rejecting s = (Return (), s') \<and> refresh_token_known s'"
proof -
  from assms obtain t where t: "token s = Some t" "truthy (refresh_token t)"
    by (auto simp: refresh_token_known_def split: option.splits)
  let ?s1 = "s\<lparr>ticks := Suc (ticks s)\<rparr>"
  from assms have k: "refresh_token_known ?s1" by (simp add: refresh_token_known_def)
  show ?thesis
  proof (cases "num_ge (Num (of_int (dateNow rejecting (ticks s)))) (expires_at t)")
    case True
    with t rejecting_refreshToken [OF k] show ?thesis by (simp add: ensureValidToken_unfold)
  next
    case False
    with t k show ?thesis by (simp add: ensureValidToken_unfold)
  qed
qed

lemma rejecting_never_settles:
  "refresh_token_known s \<Longrightarrow> request k rejecting c s = None"
proof (induction k arbitrary: c s)
  case 0
  show ?case by simp
next
  case (Suc k)
  from rejecting_ensureValidToken [OF Suc.prems] obtain s1 where
    e: "ensureValidToken rejecting s = (Return (), s1)" and k1: "refresh_token_known s1" by blast
  from ensureValidToken_Return [OF e] obtain t where t: "token s1 = Some t" ..
  let ?c1 = "c\<lparr>authorization := Some (''Bearer '' @ template (access_token t))\<rparr>"
  have i: "requestInterceptor rejecting c s = (Return ?c1, s1)"
    unfolding requestInterceptor_Return using e t by blast
  let ?s2 = "s1\<lparr>sent := sent s1 @ [?c1]\<rparr>"
  have d: "dispatchRequest rejecting ?c1 s1 = (Throw (AxiosError (Some 401) ?c1), ?s2)"
    by (simp add: dispatchRequest_unfold rejecting_def world_def always_def validateStatus_def)
  from k1 have k2: "refresh_token_known ?s2" by (simp add: refresh_token_known_def)
  from rejecting_refreshToken [OF k2] obtain s3 where
    r: "refreshToken rejecting ?s2 = (Return (), s3)" and k3: "refresh_token_known s3" by blast
  have "request (Suc k) rejecting c s
          = responseRejected (\<lambda>c s'. request k rejecting c s') rejecting
              (AxiosError (Some 401) ?c1) ?s2"
    by (simp only: request.simps i d prod.case outcome.case)
  also have "\<dots> = None"
    by (simp only: responseRejected_401 [OF k2] r prod.case outcome.case Suc.IH [OF k3])
  finally show ?case .
qed

section \<open>The parameters a handler builds\<close>

lemma str_entry_limit: "k \<noteq> ''limit'' \<Longrightarrow> filter (\<lambda>p. fst p = ''limit'') (str_entry k v) = []"
  by (cases v) auto

lemma num_entry_limit: "k \<noteq> ''limit'' \<Longrightarrow> filter (\<lambda>p. fst p = ''limit'') (num_entry k v) = []"
  by (cases v) auto

lemma bool_entry_limit: "k \<noteq> ''limit'' \<Longrightarrow> filter (\<lambda>p. fst p = ''limit'') (bool_entry k v) = []"
  by (cases v) auto

lemma list_entry_limit: "k \<noteq> ''limit'' \<Longrightarrow> filter (\<lambda>p. fst p = ''limit'') (list_entry k v) = []"
  by (cases v) auto

lemma limit_entry_limit: "filter (\<lambda>p. fst p = ''limit'') (limit_entry v) = limit_entry v"
  by (cases v) auto

lemmas entry_limit = str_entry_limit num_entry_limit bool_entry_limit list_entry_limit
  limit_entry_limit

lemmas config_defs = searchContacts_config_def listCampaigns_config_def listEmails_config_def
  listForms_config_def listSegments_config_def getFormSubmissions_config_def
  getSegmentContacts_config_def getContactActivity_config_def list_params_def get_config_def
  opt_def

lemma handle_unfold:
  "handle t k e args s = text_content (axiosInstance_get k e (tool_config t args) s)"
  by (cases t)
     (simp_all add: searchContacts_def listCampaigns_def listEmails_def listForms_def
        getFormSubmissions_def listSegments_def getSegmentContacts_def getContactActivity_def)

lemma limit_entry_claimed: "limit_entry (limit a) = claimed_limit (Some a)"
proof (cases "limit a")
  case None
  then show ?thesis by (simp add: claimed_limit_def)
next
  case (Some v)
  then show ?thesis by (cases v) (simp_all add: claimed_limit_def Math_min_def min_def)
qed

lemma tool_config_entry:
  "\<exists>c. tool_config t (Some a) = Return c \<and> limit_params c = limit_entry (limit a)"
  by (cases t) (simp_all add: config_defs limit_params_def entry_limit)

lemma tool_config_limit:
  "\<exists>c. tool_config t (Some a) = Return c \<and> limit_params c = claimed_limit (Some a)"
  using tool_config_entry [of t a] by (simp add: limit_entry_claimed)

lemma tool_config_no_args:
  "tool_config t None = Return c \<Longrightarrow> limit_params c = claimed_limit None"
  by (cases t) (auto simp: config_defs limit_params_def entry_limit claimed_limit_def)

lemma tool_config_claimed:
  "tool_config t args = Return c \<Longrightarrow> limit_params c = claimed_limit args"
proof (cases args)
  case None
  assume "tool_config t args = Return c"
  with None show ?thesis by (simp add: tool_config_no_args)
next
  case (Some a)
  assume "tool_config t args = Return c"
  with Some tool_config_limit [of t a] show ?thesis by auto
qed

lemma same_request_limit:
  "list_all (same_request c) qs \<Longrightarrow> list_all (\<lambda>q. limit_params q = limit_params c) qs"
  by (induction qs) (auto simp: same_request_def limit_params_def)

subsection \<open>What a tool call puts on the wire\<close>

lemma responseRejected_sent:
  assumes "responseRejected (\<lambda>c s'. request k e c s') e (AxiosError st c1) s2 = Some (r, s')"
  shows "\<exists>qs. sent s' = sent s2 @ qs \<and> list_all (same_request c1) qs"
proof (cases "st = Some 401 \<and> refresh_token_known s2")
  case False
  with assms have "s' = s2" by (auto simp: responseRejected_other)
  then show ?thesis by simp
next
  case True
  show ?thesis
  proof (cases "refreshToken e s2")
    case rf: (Pair o3 s3)
    with refreshToken_sent [of e s2] have s3: "sent s3 = sent s2" by simp
    show ?thesis
    proof (cases o3)
      case (Throw x)
      with assms True rf have "s' = s3" by (simp add: responseRejected_401)
      with s3 show ?thesis by simp
    next
      case (Return u)
      with assms True rf
      have "request k e (c1\<lparr>authorization := Some (bearer (token s3))\<rparr>) s3 = Some (r, s')"
        by (simp add: responseRejected_401)
      from request_sent [OF this] s3 show ?thesis by simp
    qed
  qed
qed

lemma request_sent_first:
  assumes "request k e c s = Some (r, s')" and "requestInterceptor e c s = (Return c1, s1)"
  shows "\<exists>rest. sent s' = sent s @ c1 # rest \<and> list_all (same_request c) (c1 # rest)"
proof (cases k)
  case 0
  with assms(1) show ?thesis by simp
next
  case (Suc k')
  from assms(2) have "\<exists>t. ensureValidToken e s = (Return (), s1) \<and> token s1 = Some t
      \<and> c1 = c\<lparr>authorization := Some (''Bearer '' @ template (access_token t))\<rparr>"
    by (simp only: requestInterceptor_Return)
  then obtain t where ev: "ensureValidToken e s = (Return (), s1) \<and> token s1 = Some t
      \<and> c1 = c\<lparr>authorization := Some (''Bearer '' @ template (access_token t))\<rparr>" ..
  then have c1: "c1 = c\<lparr>authorization := Some (''Bearer '' @ template (access_token t))\<rparr>"
    by (elim conjE)
  then have sr: "same_request c c1" by (simp add: same_request_def)
  have sc: "same_request c1 = same_request c" by (simp add: c1)
  from ev ensureValidToken_sent [of e s] have s1: "sent s1 = sent s" by simp
  let ?s2 = "s1\<lparr>sent := sent s1 @ [c1]\<rparr>"
  show ?thesis
  proof (cases "dispatchRequest e c1 s1")
    case d: (Pair o2 s2)
    then have s2: "s2 = ?s2"
      by (auto simp: dispatchRequest_unfold split: api_reply.splits if_splits)
    show ?thesis
    proof (cases o2)
      case (Return resp)
      with assms Suc d have "s' = s2" by simp
      with s1 s2 sr show ?thesis by simp
    next
      case (Throw err)
      with d obtain st where err: "err = AxiosError st c1"
        by (auto simp: dispatchRequest_unfold split: api_reply.splits if_splits)
      from assms Suc d Throw
      have "responseRejected (\<lambda>c s'. request k' e c s') e (AxiosError st c1) s2 = Some (r, s')"
        by (simp add: err)
      from responseRejected_sent [OF this] obtain qs where
        "sent s' = sent s2 @ qs" and "list_all (same_request c1) qs" by blast
      with s1 s2 sr sc have "sent s' = sent s @ c1 # qs \<and> list_all (same_request c) (c1 # qs)"
        by simp
      then show ?thesis by blast
    qed
  qed
qed

lemma request_answered:
  assumes "requestInterceptor e c s = (Return c1, s1)"
    and "transport e (length (sent s1)) c1 = ApiReply st body" and "validateStatus st"
  shows "request (Suc k) e c s
           = Some (Return \<lparr>status = st, payload = body\<rparr>, s1\<lparr>sent := sent s1 @ [c1]\<rparr>)"
  using assms by (simp add: dispatchRequest_unfold)

lemma text_content_state:
  "text_content x = Some (r, s') \<Longrightarrow> \<exists>r0. x = Some (r0, s')"
  by (auto simp: text_content_def split: option.splits outcome.splits if_splits)

lemma callTool_handle:
  "callTool t k e args s = Some (r, s') \<Longrightarrow>
   \<exists>r0. axiosInstance_get k e (tool_config t args) s = Some (r0, s')"
proof -
  assume "callTool t k e args s = Some (r, s')"
  then have "\<exists>r1. handle t k e args s = Some (r1, s')"
    by (auto simp: callTool_def split: option.splits outcome.splits error.splits)
  then show ?thesis by (auto simp: handle_unfold dest: text_content_state)
qed

lemma callTool_sent:
  assumes "callTool t k e args s = Some (r, s')"
  shows "\<exists>qs. sent s' = sent s @ qs \<and> list_all (\<lambda>q. limit_params q = claimed_limit args) qs"
proof -
  from callTool_handle [OF assms] obtain r0 where
    h: "axiosInstance_get k e (tool_config t args) s = Some (r0, s')" ..
  show ?thesis
  proof (cases "tool_config t args")
    case (Throw err)
    with h show ?thesis by (simp add: axiosInstance_get_def)
  next
    case (Return c)
    with h have "request k e c s = Some (r0, s')" by (simp add: axiosInstance_get_def)
    from request_sent [OF this] obtain qs where
      "sent s' = sent s @ qs" and "list_all (same_request c) qs" by blast
    with same_request_limit [of c qs] tool_config_claimed [OF Return] show ?thesis by auto
  qed
qed

lemma callTool_sent_first:
  assumes "callTool t k e (Some a) s = Some (r, s')" and "ensureValidToken e s = (Return (), s1)"
  shows "\<exists>q rest. sent s' = sent s @ q # rest
           \<and> list_all (\<lambda>q. limit_params q = claimed_limit (Some a)) (q # rest)"
proof -
  from tool_config_limit [of t a] obtain c where
    c: "tool_config t (Some a) = Return c" and l: "limit_params c = claimed_limit (Some a)" by blast
  from callTool_handle [OF assms(1)] c obtain r0 where
    h: "request k e c s = Some (r0, s')"
    by (auto simp: axiosInstance_get_def)
  from ensureValidToken_Return [OF assms(2)] obtain tk where tk: "token s1 = Some tk" ..
  have "requestInterceptor e c s =
          (Return (c\<lparr>authorization := Some (''Bearer '' @ template (access_token tk))\<rparr>), s1)"
    unfolding requestInterceptor_Return using assms(2) tk by blast
  from request_sent_first [OF h this] obtain rest where
    "sent s' = sent s @ c\<lparr>authorization := Some (''Bearer '' @ template (access_token tk))\<rparr> # rest"
    and "list_all (same_request c)
           (c\<lparr>authorization := Some (''Bearer '' @ template (access_token tk))\<rparr> # rest)" by blast
  with same_request_limit l show ?thesis by fastforce
qed

lemma callTool_answered:
  assumes "ensureValidToken e s = (Return (), s1)"
    and "\<forall>q. transport e (length (sent s1)) q = ApiReply st body" and "validateStatus st"
    and "\<not> data_is_null body"
  shows "\<exists>q. callTool t (Suc k) e (Some a) s
               = Some (Return (Content \<lparr>status = st, payload = body\<rparr>), s1\<lparr>sent := sent s1 @ [q]\<rparr>)
             \<and> limit_params q = claimed_limit (Some a)"
proof -
  from tool_config_limit [of t a] obtain c where
    c: "tool_config t (Some a) = Return c" and l: "limit_params c = claimed_limit (Some a)" by blast
  from ensureValidToken_Return [OF assms(1)] obtain tk where tk: "token s1 = Some tk" ..
  let ?q = "c\<lparr>authorization := Some (''Bearer '' @ template (access_token tk))\<rparr>"
  have i: "requestInterceptor e c s = (Return ?q, s1)"
    unfolding requestInterceptor_Return using assms(1) tk by blast
  from assms(2) have "transport e (length (sent s1)) ?q = ApiReply st body" by blast
  from request_answered [OF i this assms(3), of k]
  have "callTool t (Suc k) e (Some a) s
          = Some (Return (Content \<lparr>status = st, payload = body\<rparr>), s1\<lparr>sent := sent s1 @ [?q]\<rparr>)"
    using assms(4) by (simp add: callTool_def handle_unfold axiosInstance_get_def text_content_def c)
  moreover from l have "limit_params ?q = claimed_limit (Some a)" by (simp add: limit_params_def)
  ultimately show ?thesis by blast
qed

section \<open>Evaluation in concrete worlds\<close>

lemmas world_defs = world_def noon_def readings_def always_def unauthorized_until_def granted_def holding_def refusal_def
  contacts_def get_config_def initial_def

lemmas code_defs = getAccessToken_def refreshToken_def ensureValidToken_def axios_post_def
  Date_now_def validateStatus_def acquired_def refreshed_def expiry_def token_type_or_Bearer_def
  num_sub_def to_double_numeral exactly_def

lemmas chain_defs = requestInterceptor_def dispatchRequest_def responseRejected_def
  refresh_token_known_def bearer_def





subsection \<open>Expiries that are rounded\<close>

text \<open>
  Outside the range the arithmetic rounds. For a token granted at the instant 1000001 for
  9007199254741 seconds, the sum is not a double, and the stored expiry is one millisecond
  short of \<open>now + expires_in * 1000 - 60000\<close>. For a token granted for
  \<open>60 + 2^-24\<close> seconds at an instant of the present epoch, the stored expiry is the
  instant itself: more than 60 seconds do not make the token outlive the margin.
\<close>

lemma expiry_rounds:
  "expiry 1000001 (Num 9007199254741) = Num 9007199255681000"
  by code_simp

lemma expiry_fraction:
  "expiry 1700000000000 (Num (1006632961 / 16777216)) = Num 1700000000000"
  by code_simp

section \<open>The replay after a 401\<close>

text \<open>
  C1 says that a request answered with 401 while a refresh token is known is replayed
  exactly once, that a failure of the replay is what the caller gets, and that no third
  attempt is ever made. The replay is made with \<open>this.axiosInstance.request\<close>, so it
  passes through the same response interceptor, and nothing marks it as a replay: a 401 to
  the replay is handled like the first one. Here the API answers 401 twice and then 200:
  the request goes on the wire three times, after two refreshes, and the caller gets the
  response to the third attempt. Against the API that answers 401 to every request, the
  promise is not settled within any bound \<open>k\<close>.
\<close>

theorem replay_is_replayed:
  "request (Suc (Suc (Suc 0)))
       (world noon TokenNetworkError (granted ''A2'' None 3600 None) (unauthorized_until 2))
       contacts (holding ''A1'' (Some ''R1'') 2000000)
     = Some (Return \<lparr>status = 200, payload = []\<rparr>,
        \<lparr>token = Some \<lparr>access_token = Some ''A2'', refresh_token = Some ''R1'',
                       expires_at = Num 4540000, token_type = ''Bearer''\<rparr>,
         ticks = 5, posts = [RefreshTokenGrant ''R1'', RefreshTokenGrant ''R1''],
         sent = [contacts\<lparr>authorization := Some ''Bearer A1''\<rparr>,
                 contacts\<lparr>authorization := Some ''Bearer A2''\<rparr>,
                 contacts\<lparr>authorization := Some ''Bearer A2''\<rparr>]\<rparr>)
   \<and> request k rejecting contacts (holding ''A1'' (Some ''R1'') 2000000) = None"
proof
  show "request (Suc (Suc (Suc 0)))
       (world noon TokenNetworkError (granted ''A2'' None 3600 None) (unauthorized_until 2))
       contacts (holding ''A1'' (Some ''R1'') 2000000)
     = Some (Return \<lparr>status = 200, payload = []\<rparr>,
        \<lparr>token = Some \<lparr>access_token = Some ''A2'', refresh_token = Some ''R1'',
                       expires_at = Num 4540000, token_type = ''Bearer''\<rparr>,
         ticks = 5, posts = [RefreshTokenGrant ''R1'', RefreshTokenGrant ''R1''],
         sent = [contacts\<lparr>authorization := Some ''Bearer A1''\<rparr>,
                 contacts\<lparr>authorization := Some ''Bearer A2''\<rparr>,
                 contacts\<lparr>authorization := Some ''Bearer A2''\<rparr>]\<rparr>)"
    by (simp add: world_defs code_defs chain_defs)
next
  have "refresh_token_known (holding ''A1'' (Some ''R1'') 2000000)"
    by (simp add: refresh_token_known_def holding_def)
  then show "request k rejecting contacts (holding ''A1'' (Some ''R1'') 2000000) = None"
    by (rule rejecting_never_settles)
qed

section \<open>The postcondition of ensureValidToken\<close>




section \<open>The dispatch of ensureValidToken\<close>

text \<open>
  C3 says that an expired Credential that carries a refresh token takes the refresh path
  and not the full acquisition. The test in the code is the truthiness of
  \<open>this.token?.refresh_token\<close>: a Credential whose refresh token is the empty string goes
  through the \<open>client_credentials\<close> grant.
\<close>

theorem ensureValidToken_dispatch_counterexample:
  "ensureValidToken (world noon (granted ''A2'' None 3600 None) (granted ''A3'' None 3600 None) (always 200))
       (holding ''A1'' (Some []) 0)
     = (Return (),
        \<lparr>token = Some \<lparr>access_token = Some ''A2'', refresh_token = None,
                       expires_at = Num 4540000, token_type = ''Bearer''\<rparr>,
         ticks = 2, posts = [ClientCredentials], sent = []\<rparr>)"
  by (simp add: world_defs code_defs)

text \<open>
  C3, amended. With no Credential stored, \<open>ensureValidToken\<close> is the full acquisition: its
  POST is the \<open>client_credentials\<close> grant. With a Credential that is expired
  (\<open>now >= expires_at\<close>) and carries a non-empty refresh token, it is \<open>refreshToken\<close>,
  and the first POST is the \<open>refresh_token\<close> grant with that token; an empty refresh token
  counts as none, and the call is the full acquisition. With an unexpired Credential
  (\<open>now < expires_at\<close>) it returns at once: Credential, POSTs and requests are as before.
\<close>

theorem ensureValidToken_dispatch:
  "(token s = None \<longrightarrow>
      ensureValidToken e s = getAccessToken e s
      \<and> posts (snd (ensureValidToken e s)) = posts s @ [ClientCredentials])
   \<and> (token s = Some t \<and> num_ge (Num (of_int (dateNow e (ticks s)))) (expires_at t)
        \<and> refresh_token t = Some r \<and> r \<noteq> [] \<longrightarrow>
      ensureValidToken e s = refreshToken e (s\<lparr>ticks := Suc (ticks s)\<rparr>)
      \<and> (\<exists>rest. posts (snd (ensureValidToken e s)) = posts s @ RefreshTokenGrant r # rest))
   \<and> (token s = Some t \<and> num_ge (Num (of_int (dateNow e (ticks s)))) (expires_at t)
        \<and> refresh_token t = Some [] \<longrightarrow>
      ensureValidToken e s = getAccessToken e (s\<lparr>ticks := Suc (ticks s)\<rparr>)
      \<and> posts (snd (ensureValidToken e s)) = posts s @ [ClientCredentials])
   \<and> (token s = Some t \<and> num_lt (Num (of_int (dateNow e (ticks s)))) (expires_at t) \<longrightarrow>
      ensureValidToken e s = (Return (), s\<lparr>ticks := Suc (ticks s)\<rparr>))"
proof -
  have a: "posts (snd (getAccessToken e s0)) = posts s0 @ [ClientCredentials]" for s0
    using getAccessToken_posts [of e s0] by auto
  have b: "\<exists>rest. posts (snd (refreshToken e (s\<lparr>ticks := Suc (ticks s)\<rparr>))) = posts s @ RefreshTokenGrant r # rest"
    if "token s = Some t" "refresh_token t = Some r" "r \<noteq> []"
    using refreshToken_posts [of "s\<lparr>ticks := Suc (ticks s)\<rparr>" t r e] that by auto
  have c: "\<not> num_ge (Num n) x" if "num_lt (Num n) x" for n x
    using that by (cases x) auto
  show ?thesis
    using b by (auto simp: ensureValidToken_unfold a c)
qed

theorem ensureValidToken_dispatch_witness:
  "ensureValidToken (world noon (granted ''A1'' None 3600 None) TokenNetworkError (always 200)) initial
     = (Return (),
        \<lparr>token = Some \<lparr>access_token = Some ''A1'', refresh_token = None,
                       expires_at = Num 4540000, token_type = ''Bearer''\<rparr>,
         ticks = 1, posts = [ClientCredentials], sent = []\<rparr>)
   \<and> ensureValidToken (world noon TokenNetworkError (granted ''A2'' None 1800 None) (always 200))
        (holding ''A1'' (Some ''R1'') 0)
     = (Return (),
        \<lparr>token = Some \<lparr>access_token = Some ''A2'', refresh_token = Some ''R1'',
                       expires_at = Num 2740000, token_type = ''Bearer''\<rparr>,
         ticks = 2, posts = [RefreshTokenGrant ''R1''], sent = []\<rparr>)
   \<and> ensureValidToken (world noon TokenNetworkError TokenNetworkError (always 200))
        (holding ''A1'' (Some ''R1'') 2000000)
     = (Return (),
        \<lparr>token = Some \<lparr>access_token = Some ''A1'', refresh_token = Some ''R1'',
                       expires_at = Num 2000000, token_type = ''Bearer''\<rparr>,
         ticks = 1, posts = [], sent = []\<rparr>)"
proof -
  let ?e1 = "world noon (granted ''A1'' None 3600 None) TokenNetworkError (always 200)"
  let ?e2 = "world noon TokenNetworkError (granted ''A2'' None 1800 None) (always 200)"
  let ?e3 = "world noon TokenNetworkError TokenNetworkError (always 200)"
  let ?t2 = "\<lparr>access_token = Some ''A1'', refresh_token = Some ''R1'', expires_at = Num 0,
             token_type = ''Bearer''\<rparr>"
  let ?t3 = "\<lparr>access_token = Some ''A1'', refresh_token = Some ''R1'', expires_at = Num 2000000,
             token_type = ''Bearer''\<rparr>"
  have 1: "ensureValidToken ?e1 initial = getAccessToken ?e1 initial"
    using ensureValidToken_dispatch [of initial ?e1] by (simp add: initial_def)
  have 2: "ensureValidToken ?e2 (holding ''A1'' (Some ''R1'') 0)
             = refreshToken ?e2 ((holding ''A1'' (Some ''R1'') 0)\<lparr>ticks := Suc (ticks (holding ''A1'' (Some ''R1'') 0))\<rparr>)"
    using ensureValidToken_dispatch [of "holding ''A1'' (Some ''R1'') 0" ?e2 ?t2 "''R1''"]
    by (simp add: holding_def world_def noon_def)
  have 3: "ensureValidToken ?e3 (holding ''A1'' (Some ''R1'') 2000000)
             = (Return (), (holding ''A1'' (Some ''R1'') 2000000)\<lparr>ticks := Suc (ticks (holding ''A1'' (Some ''R1'') 2000000))\<rparr>)"
    using ensureValidToken_dispatch [of "holding ''A1'' (Some ''R1'') 2000000" ?e3 ?t3]
    by (simp add: holding_def world_def noon_def)
  show ?thesis
    unfolding 1 2 3 by (simp add: world_defs code_defs)
qed

section \<open>Fallback from a failed refresh\<close>

text \<open>
  C4 says that when the \<open>refresh_token\<close> grant fails and the fallback acquisition succeeds,
  a new valid Credential is stored. The Credential that is stored is whatever the
  acquisition response makes of it: here the refresh is refused, the acquisition grants a
  token for 30 seconds, and the Credential stored without error has expired 30 seconds
  before the instant it was acquired at.
\<close>

theorem refresh_falls_back_counterexample:
  "refreshToken (world noon (granted ''A2'' None 30 None) (TokenReply 400 NullData) (always 200))
       (holding ''A1'' (Some ''R1'') 0)
     = (Return (),
        \<lparr>token = Some \<lparr>access_token = Some ''A2'', refresh_token = None,
                       expires_at = Num 970000, token_type = ''Bearer''\<rparr>,
         ticks = 1, posts = [RefreshTokenGrant ''R1'', ClientCredentials], sent = []\<rparr>)
   \<and> \<not> valid_at (noon 0) \<lparr>access_token = Some ''A2'', refresh_token = None,
                          expires_at = Num 970000, token_type = ''Bearer''\<rparr>"
  by (simp add: world_defs code_defs valid_at_def)

text \<open>
  C4, amended. When \<open>refreshToken\<close> runs with a known refresh token and the
  \<open>refresh_token\<close> grant fails, it behaves as \<open>getAccessToken\<close> run after that POST: the
  manager falls back to full acquisition. If the acquisition is answered with a 2xx status
  and a body, no error is raised and the Credential built from that answer is stored; it
  is valid at the instant of the acquisition when the answer has a non-empty access token
  and an \<open>expires_in\<close> that is a whole number of seconds, more than 60 and in range. An
  error reaches the caller only when the acquisition fails too; it is then the
  AuthenticationFailure, and the stored Credential is the one from before.
\<close>

theorem refresh_falls_back:
  assumes "token s = Some t" and "refresh_token t = Some r" and "r \<noteq> []"
    and "post_fails e (RefreshTokenGrant r) s"
  shows "refreshToken e s = getAccessToken e (s\<lparr>posts := posts s @ [RefreshTokenGrant r]\<rparr>)
    \<and> (\<forall>st d. tokenEndpoint e (Suc (length (posts s))) ClientCredentials = TokenReply st (Fields d)
                \<and> validateStatus st
          \<longrightarrow> refreshToken e s =
                (Return (),
                 s\<lparr>posts := posts s @ [RefreshTokenGrant r, ClientCredentials],
                   ticks := Suc (ticks s),
                   token := Some (acquired d (dateNow e (ticks s)))\<rparr>)
              \<and> (\<forall>a n. resp_access_token d = Some a \<and> a \<noteq> []
                        \<and> resp_expires_in d = Num (of_int n) \<and> 60 < n
                        \<and> in_range (dateNow e (ticks s)) n
                    \<longrightarrow> valid_at (dateNow e (ticks s)) (acquired d (dateNow e (ticks s)))))
    \<and> (\<forall>err s'. refreshToken e s = (Throw err, s')
          \<longrightarrow> err = AuthenticationFailure \<and> token s' = token s
              \<and> post_fails e ClientCredentials (s\<lparr>posts := posts s @ [RefreshTokenGrant r]\<rparr>))"
proof -
  let ?s1 = "s\<lparr>posts := posts s @ [RefreshTokenGrant r]\<rparr>"
  have fb: "refreshToken e s = getAccessToken e ?s1"
    by (rule refreshToken_fallback [OF assms])
  have ok: "refreshToken e s =
                (Return (),
                 s\<lparr>posts := posts s @ [RefreshTokenGrant r, ClientCredentials],
                   ticks := Suc (ticks s),
                   token := Some (acquired d (dateNow e (ticks s)))\<rparr>)"
    if "tokenEndpoint e (Suc (length (posts s))) ClientCredentials = TokenReply st (Fields d)"
      and "validateStatus st" for st d
    using getAccessToken_succeeds [of e ?s1 st d] that by (simp add: fb)
  have valid: "valid_at now (acquired d now)"
    if "resp_access_token d = Some a" and "a \<noteq> []" and "resp_expires_in d = Num (of_int n)"
      and "60 < n" and "in_range now n" for d a n now
    using that by (simp add: valid_at_def acquired_def expiry_long)
  have bad: "err = AuthenticationFailure \<and> token s' = token s \<and> post_fails e ClientCredentials ?s1"
    if t: "refreshToken e s = (Throw err, s')" for err s'
  proof -
    from t fb have g: "getAccessToken e ?s1 = (Throw err, s')" by simp
    from post_cases [of e ClientCredentials ?s1] show ?thesis
    proof
      assume f: "post_fails e ClientCredentials ?s1"
      from getAccessToken_fails [OF f] g f show ?thesis by auto
    next
      assume "\<exists>st d. tokenEndpoint e (length (posts ?s1)) ClientCredentials = TokenReply st (Fields d) \<and> validateStatus st"
      then obtain st d where "tokenEndpoint e (length (posts ?s1)) ClientCredentials = TokenReply st (Fields d)"
        and "validateStatus st" by blast
      from getAccessToken_succeeds [OF this] g show ?thesis by simp
    qed
  qed
  from fb ok valid bad show ?thesis by blast
qed

theorem refresh_falls_back_witness:
  "refreshToken (world noon (granted ''A2'' None 3600 None) (TokenReply 400 NullData) (always 200))
       (holding ''A1'' (Some ''R1'') 0)
     = (Return (),
        \<lparr>token = Some \<lparr>access_token = Some ''A2'', refresh_token = None,
                       expires_at = Num 4540000, token_type = ''Bearer''\<rparr>,
         ticks = 1, posts = [RefreshTokenGrant ''R1'', ClientCredentials], sent = []\<rparr>)
   \<and> valid_at (noon 0) \<lparr>access_token = Some ''A2'', refresh_token = None,
                        expires_at = Num 4540000, token_type = ''Bearer''\<rparr>
   \<and> refreshToken (world noon TokenNetworkError (TokenReply 400 NullData) (always 200))
       (holding ''A1'' (Some ''R1'') 0)
     = (Throw AuthenticationFailure,
        \<lparr>token = Some \<lparr>access_token = Some ''A1'', refresh_token = Some ''R1'',
                       expires_at = Num 0, token_type = ''Bearer''\<rparr>,
         ticks = 0, posts = [RefreshTokenGrant ''R1'', ClientCredentials], sent = []\<rparr>)"
proof -
  let ?t = "\<lparr>access_token = Some ''A1'', refresh_token = Some ''R1'', expires_at = Num 0,
            token_type = ''Bearer''\<rparr>"
  let ?s = "holding ''A1'' (Some ''R1'') 0"
  let ?e1 = "world noon (granted ''A2'' None 3600 None) (TokenReply 400 NullData) (always 200)"
  let ?e2 = "world noon TokenNetworkError (TokenReply 400 NullData) (always 200)"
  let ?d = "\<lparr>resp_access_token = Some ''A2'', resp_refresh_token = None,
             resp_expires_in = Num 3600, resp_token_type = None\<rparr>"
  have t: "token ?s = Some ?t" and r: "refresh_token ?t = Some ''R1''" and n: "''R1'' \<noteq> []"
    by (simp_all add: holding_def)
  have f1: "post_fails ?e1 (RefreshTokenGrant ''R1'') ?s"
    and f2: "post_fails ?e2 (RefreshTokenGrant ''R1'') ?s"
    by (simp_all add: post_fails_def world_def validateStatus_def)
  note w1 = refresh_falls_back [OF t r n f1]
  have g: "tokenEndpoint ?e1 (Suc (length (posts ?s))) ClientCredentials = TokenReply 200 (Fields ?d)
             \<and> validateStatus 200"
    by (simp add: world_def granted_def validateStatus_def)
  from w1 g have a: "refreshToken ?e1 ?s =
                (Return (),
                 ?s\<lparr>posts := posts ?s @ [RefreshTokenGrant ''R1'', ClientCredentials],
                    ticks := Suc (ticks ?s),
                    token := Some (acquired ?d (dateNow ?e1 (ticks ?s)))\<rparr>)"
    by blast
  have h: "resp_access_token ?d = Some ''A2'' \<and> ''A2'' \<noteq> [] \<and> resp_expires_in ?d = Num (of_int 3600)
             \<and> (60::int) < 3600 \<and> in_range (dateNow ?e1 (ticks ?s)) 3600"
    by (simp add: world_def noon_def holding_def in_range_def exactly_def)
  from w1 g h have b: "valid_at (dateNow ?e1 (ticks ?s)) (acquired ?d (dateNow ?e1 (ticks ?s)))"
    by blast
  from refresh_falls_back [OF t r n f2]
  have c: "refreshToken ?e2 ?s = getAccessToken ?e2 (?s\<lparr>posts := posts ?s @ [RefreshTokenGrant ''R1'']\<rparr>)"
    by (rule conjunct1)
  from a b c show ?thesis
    by (simp add: world_defs code_defs)
qed

section \<open>Rotation of the refresh token\<close>

text \<open>
  C5 says that a successful refresh keeps the previous refresh token when the response
  omits \<open>refresh_token\<close>, and that a \<open>refresh_token\<close> the response does supply replaces
  the old one. The second half fails for one value: the code writes
  \<open>response.data.refresh_token || this.token.refresh_token\<close>, so a response that supplies
  the empty string leaves the old refresh token \<open>R1\<close> in place.
\<close>

theorem refresh_token_rotation_counterexample:
  "tokenEndpoint (world noon TokenNetworkError (granted ''A2'' (Some []) 1800 None) (always 200)) 0
       (RefreshTokenGrant ''R1'')
     = TokenReply 200 (Fields \<lparr>resp_access_token = Some ''A2'', resp_refresh_token = Some [],
                               resp_expires_in = Num 1800, resp_token_type = None\<rparr>)
   \<and> refreshToken (world noon TokenNetworkError (granted ''A2'' (Some []) 1800 None) (always 200))
        (holding ''A1'' (Some ''R1'') 0)
     = (Return (),
        \<lparr>token = Some \<lparr>access_token = Some ''A2'', refresh_token = Some ''R1'',
                       expires_at = Num 2740000, token_type = ''Bearer''\<rparr>,
         ticks = 1, posts = [RefreshTokenGrant ''R1''], sent = []\<rparr>)"
  by (simp add: world_defs code_defs)

text \<open>
  C5, amended. A successful refresh with a known refresh token \<open>r\<close> stores a Credential
  that keeps \<open>r\<close> when the response omits \<open>refresh_token\<close> or supplies the empty string,
  and that carries the response's \<open>refresh_token\<close> when that is a non-empty string.
\<close>

theorem refresh_token_rotation:
  assumes "token s = Some t" and "refresh_token t = Some r" and "r \<noteq> []"
    and "tokenEndpoint e (length (posts s)) (RefreshTokenGrant r) = TokenReply st (Fields d)"
    and "validateStatus st"
  shows "\<exists>s' t'. refreshToken e s = (Return (), s') \<and> token s' = Some t'
           \<and> (resp_refresh_token d = None \<longrightarrow> refresh_token t' = Some r)
           \<and> (resp_refresh_token d = Some [] \<longrightarrow> refresh_token t' = Some r)
           \<and> (\<forall>r'. resp_refresh_token d = Some r' \<longrightarrow> r' \<noteq> [] \<longrightarrow> refresh_token t' = Some r')"
  using refreshToken_succeeds [OF assms] assms(2) by (simp add: refreshed_def)

theorem refresh_token_rotation_witness:
  "(\<exists>s' t'. refreshToken (world noon TokenNetworkError (granted ''A2'' None 1800 None) (always 200))
               (holding ''A1'' (Some ''R1'') 0) = (Return (), s')
      \<and> token s' = Some t' \<and> refresh_token t' = Some ''R1'')
   \<and> (\<exists>s' t'. refreshToken (world noon TokenNetworkError (granted ''A2'' (Some ''R2'') 1800 None) (always 200))
               (holding ''A1'' (Some ''R1'') 0) = (Return (), s')
      \<and> token s' = Some t' \<and> refresh_token t' = Some ''R2'')"
  using refresh_token_rotation [where e = "world noon TokenNetworkError (granted ''A2'' None 1800 None) (always 200)"
      and s = "holding ''A1'' (Some ''R1'') 0" and st = 200 and r = "''R1''"
      and t = "\<lparr>access_token = Some ''A1'', refresh_token = Some ''R1'', expires_at = Num 0,
                    token_type = ''Bearer''\<rparr>"
      and d = "\<lparr>resp_access_token = Some ''A2'', resp_refresh_token = None,
                 resp_expires_in = Num 1800, resp_token_type = None\<rparr>"]
   refresh_token_rotation [where e = "world noon TokenNetworkError (granted ''A2'' (Some ''R2'') 1800 None) (always 200)"
      and s = "holding ''A1'' (Some ''R1'') 0" and st = 200 and r = "''R1''"
      and t = "\<lparr>access_token = Some ''A1'', refresh_token = Some ''R1'', expires_at = Num 0,
                    token_type = ''Bearer''\<rparr>"
      and d = "\<lparr>resp_access_token = Some ''A2'', resp_refresh_token = Some ''R2'',
                 resp_expires_in = Num 1800, resp_token_type = None\<rparr>"]
  by (simp add: world_defs validateStatus_def)

section \<open>Expiry with the safety margin\<close>

text \<open>
  C6. Every successful acquisition or refresh whose response reports \<open>expires_in\<close>, a
  whole number of seconds, stores a Credential whose \<open>expires_at\<close> is the instant read
  from the clock at that moment, plus \<open>expires_in\<close> seconds, minus the margin of 60
  seconds, in milliseconds: \<open>now + expires_in * 1000 - 60000\<close>. The values are in the range
  where doubles compute the expression without rounding (the product, the sum and the
  difference have a magnitude of at most \<open>2^53\<close>). The first half is \<open>getAccessToken\<close>
  answered with a 2xx status and a body that has \<open>expires_in\<close>, the second half
  \<open>refreshToken\<close> with a known refresh token, answered likewise.
\<close>

theorem expires_at_margin:
  "(tokenEndpoint e (length (posts s)) ClientCredentials = TokenReply st (Fields d)
      \<and> validateStatus st \<and> resp_expires_in d = Num (of_int n)
      \<and> in_range (dateNow e (ticks s)) n
    \<longrightarrow> (\<exists>s' t. getAccessToken e s = (Return (), s') \<and> token s' = Some t
           \<and> expires_at t = Num (of_int (dateNow e (ticks s) + n * 1000 - 60000))))
   \<and> (token s = Some t0 \<and> refresh_token t0 = Some r \<and> r \<noteq> []
      \<and> tokenEndpoint e (length (posts s)) (RefreshTokenGrant r) = TokenReply st (Fields d)
      \<and> validateStatus st \<and> resp_expires_in d = Num (of_int n)
      \<and> in_range (dateNow e (ticks s)) n
    \<longrightarrow> (\<exists>s' t. refreshToken e s = (Return (), s') \<and> token s' = Some t
           \<and> expires_at t = Num (of_int (dateNow e (ticks s) + n * 1000 - 60000))))"
  by (auto simp: getAccessToken_succeeds refreshToken_succeeds acquired_def refreshed_def
        expiry_exact)

theorem expires_at_margin_witness:
  "(\<exists>s' t. getAccessToken (world noon (granted ''A1'' None 3600 (Some ''Bearer'')) TokenNetworkError (always 200)) initial
             = (Return (), s') \<and> token s' = Some t \<and> expires_at t = Num 4540000)
   \<and> (\<exists>s' t. refreshToken (world noon TokenNetworkError (granted ''A2'' None 1800 None) (always 200))
                 (holding ''A1'' (Some ''R1'') 0)
             = (Return (), s') \<and> token s' = Some t \<and> expires_at t = Num 2740000)"
  using expires_at_margin [where e = "world noon (granted ''A1'' None 3600 (Some ''Bearer'')) TokenNetworkError (always 200)"
      and s = initial and st = 200 and n = 3600
      and d = "\<lparr>resp_access_token = Some ''A1'', resp_refresh_token = None,
                 resp_expires_in = Num 3600, resp_token_type = Some ''Bearer''\<rparr>"]
    expires_at_margin [where e = "world noon TokenNetworkError (granted ''A2'' None 1800 None) (always 200)"
      and s = "holding ''A1'' (Some ''R1'') 0" and st = 200 and n = 1800 and r = "''R1''"
      and ?t0.0 = "\<lparr>access_token = Some ''A1'', refresh_token = Some ''R1'', expires_at = Num 0,
                    token_type = ''Bearer''\<rparr>"
      and d = "\<lparr>resp_access_token = Some ''A2'', resp_refresh_token = None,
                 resp_expires_in = Num 1800, resp_token_type = None\<rparr>"]
  by (simp add: world_defs validateStatus_def in_range_def exactly_def)

section \<open>The Authorization header\<close>

text \<open>
  C7 says that the request carries \<open>Authorization: <tokenType> <accessToken>\<close> with the
  token type of the stored Credential. Both interceptors write the literal scheme
  \<open>Bearer\<close>; the stored \<open>token_type\<close> is never read. With a token endpoint that answers
  \<open>token_type: "bearer"\<close>, the Credential holds \<open>bearer\<close> and the request on the wire
  carries \<open>Bearer A1\<close>.
\<close>

theorem authorization_header_counterexample:
  "request (Suc 0) (world noon (granted ''A1'' None 3600 (Some ''bearer'')) TokenNetworkError (always 200))
       contacts initial
     = Some (Return \<lparr>status = 200, payload = []\<rparr>,
        \<lparr>token = Some \<lparr>access_token = Some ''A1'', refresh_token = None,
                       expires_at = Num 4540000, token_type = ''bearer''\<rparr>,
         ticks = 1, posts = [ClientCredentials],
         sent = [\<lparr>http_method = ''get'', url = [Lit ''/contacts''], params = [],
                  authorization = Some ''Bearer A1''\<rparr>]\<rparr>)"
  by (simp add: world_defs code_defs chain_defs)

text \<open>
  C7, amended. When \<open>ensureValidToken\<close> succeeds, the request interceptor hands on the
  request with the header \<open>Authorization: Bearer <accessToken>\<close>, the access token being
  that of the stored Credential and the scheme the literal \<open>Bearer\<close>. When
  \<open>ensureValidToken\<close> throws, the error is the AuthenticationFailure, it is what
  \<open>request\<close> rejects with, and nothing was put on the wire. Every request that does reach
  the wire is the caller's request with a header of the scheme \<open>Bearer\<close>. The token type
  that is stored, by an acquisition and by a refresh alike, is the one the token endpoint
  answered, and \<open>Bearer\<close> when it omitted it or answered the empty string.
\<close>

theorem authorization_header:
  "(\<forall>s1. ensureValidToken e s = (Return (), s1) \<longrightarrow>
      (\<exists>t. token s1 = Some t
           \<and> requestInterceptor e config s =
               (Return (config\<lparr>authorization := Some (''Bearer '' @ template (access_token t))\<rparr>), s1)))
   \<and> (\<forall>err s1. ensureValidToken e s = (Throw err, s1) \<longrightarrow>
         err = AuthenticationFailure \<and> sent s1 = sent s
         \<and> request (Suc k) e config s = Some (Throw err, s1))
   \<and> (\<forall>r s'. request k e config s = Some (r, s') \<longrightarrow>
         (\<exists>qs. sent s' = sent s @ qs \<and> list_all (same_request config) qs))
   \<and> (\<forall>st d. tokenEndpoint e (length (posts s)) ClientCredentials = TokenReply st (Fields d)
           \<and> validateStatus st \<longrightarrow>
         (\<exists>s' t. getAccessToken e s = (Return (), s') \<and> token s' = Some t
            \<and> (resp_token_type d = None \<or> resp_token_type d = Some [] \<longrightarrow> token_type t = ''Bearer'')
            \<and> (\<forall>ty. resp_token_type d = Some ty \<and> ty \<noteq> [] \<longrightarrow> token_type t = ty)))
   \<and> (\<forall>t0 r st d. token s = Some t0 \<and> refresh_token t0 = Some r \<and> r \<noteq> []
           \<and> tokenEndpoint e (length (posts s)) (RefreshTokenGrant r) = TokenReply st (Fields d)
           \<and> validateStatus st \<longrightarrow>
         (\<exists>s' t. refreshToken e s = (Return (), s') \<and> token s' = Some t
            \<and> (resp_token_type d = None \<or> resp_token_type d = Some [] \<longrightarrow> token_type t = ''Bearer'')
            \<and> (\<forall>ty. resp_token_type d = Some ty \<and> ty \<noteq> [] \<longrightarrow> token_type t = ty)))"
proof (intro conjI allI impI)
  fix s1 assume a: "ensureValidToken e s = (Return (), s1)"
  from ensureValidToken_Return [OF a] obtain t where t: "token s1 = Some t" ..
  have "requestInterceptor e config s =
               (Return (config\<lparr>authorization := Some (''Bearer '' @ template (access_token t))\<rparr>), s1)"
    unfolding requestInterceptor_Return using a t by blast
  with t show "\<exists>t. token s1 = Some t
           \<and> requestInterceptor e config s =
               (Return (config\<lparr>authorization := Some (''Bearer '' @ template (access_token t))\<rparr>), s1)"
    by blast
next
  fix err s1 assume a: "ensureValidToken e s = (Throw err, s1)"
  from ensureValidToken_Throw [OF a] show "err = AuthenticationFailure" by simp
next
  fix err s1 assume a: "ensureValidToken e s = (Throw err, s1)"
  from ensureValidToken_sent [of e s] a show "sent s1 = sent s" by simp
next
  fix err s1 assume a: "ensureValidToken e s = (Throw err, s1)"
  from ensureValidToken_Throw [OF a] have e: "err = AuthenticationFailure" by simp
  from a have "requestInterceptor e config s = (Throw err, s1)" by (simp add: requestInterceptor_Throw)
  then show "request (Suc k) e config s = Some (Throw err, s1)"
    by (simp add: e responseRejected_McpError)
next
  fix r s' assume "request k e config s = Some (r, s')"
  then show "\<exists>qs. sent s' = sent s @ qs \<and> list_all (same_request config) qs"
    by (rule request_sent)
next
  fix st d
  assume "tokenEndpoint e (length (posts s)) ClientCredentials = TokenReply st (Fields d)
           \<and> validateStatus st"
  then show "\<exists>s' t. getAccessToken e s = (Return (), s') \<and> token s' = Some t
            \<and> (resp_token_type d = None \<or> resp_token_type d = Some [] \<longrightarrow> token_type t = ''Bearer'')
            \<and> (\<forall>ty. resp_token_type d = Some ty \<and> ty \<noteq> [] \<longrightarrow> token_type t = ty)"
    by (auto simp: getAccessToken_succeeds acquired_def token_type_or_Bearer_def)
next
  fix t0 r st d
  assume "token s = Some t0 \<and> refresh_token t0 = Some r \<and> r \<noteq> []
           \<and> tokenEndpoint e (length (posts s)) (RefreshTokenGrant r) = TokenReply st (Fields d)
           \<and> validateStatus st"
  then show "\<exists>s' t. refreshToken e s = (Return (), s') \<and> token s' = Some t
            \<and> (resp_token_type d = None \<or> resp_token_type d = Some [] \<longrightarrow> token_type t = ''Bearer'')
            \<and> (\<forall>ty. resp_token_type d = Some ty \<and> ty \<noteq> [] \<longrightarrow> token_type t = ty)"
    by (auto simp: refreshToken_succeeds refreshed_def token_type_or_Bearer_def)
qed

theorem authorization_header_witness:
  "requestInterceptor (world noon (granted ''A1'' None 3600 None) TokenNetworkError (always 200))
       contacts initial
     = (Return (contacts\<lparr>authorization := Some ''Bearer A1''\<rparr>),
        \<lparr>token = Some \<lparr>access_token = Some ''A1'', refresh_token = None,
                       expires_at = Num 4540000, token_type = ''Bearer''\<rparr>,
         ticks = 1, posts = [ClientCredentials], sent = []\<rparr>)
   \<and> request (Suc 0) (world noon (TokenReply 500 NullData) TokenNetworkError (always 200))
       contacts initial
     = Some (Throw AuthenticationFailure,
             \<lparr>token = None, ticks = 0, posts = [ClientCredentials], sent = []\<rparr>)
   \<and> (\<exists>s' t. getAccessToken (world noon (granted ''A1'' None 3600 None) TokenNetworkError (always 200))
                 initial = (Return (), s')
         \<and> token s' = Some t \<and> token_type t = ''Bearer'')
   \<and> (\<exists>s' t. refreshToken (world noon TokenNetworkError (granted ''A2'' None 1800 (Some ''mac'')) (always 200))
                 (holding ''A1'' (Some ''R1'') 0) = (Return (), s')
         \<and> token s' = Some t \<and> token_type t = ''mac'')"
proof -
  let ?e1 = "world noon (granted ''A1'' None 3600 None) TokenNetworkError (always 200)"
  let ?e2 = "world noon (TokenReply 500 NullData) TokenNetworkError (always 200)"
  let ?e3 = "world noon TokenNetworkError (granted ''A2'' None 1800 (Some ''mac'')) (always 200)"
  let ?s1 = "\<lparr>token = Some \<lparr>access_token = Some ''A1'', refresh_token = None,
                       expires_at = Num 4540000, token_type = ''Bearer''\<rparr>,
         ticks = 1, posts = [ClientCredentials], sent = []\<rparr>"
  let ?s2 = "\<lparr>token = None, ticks = 0, posts = [ClientCredentials], sent = []\<rparr>"
  let ?h = "holding ''A1'' (Some ''R1'') 0"
  have 1: "ensureValidToken ?e1 initial = (Return (), ?s1)"
    by (simp add: world_defs code_defs)
  have 2: "ensureValidToken ?e2 initial = (Throw AuthenticationFailure, ?s2)"
    by (simp add: world_defs code_defs)
  note w1 = authorization_header [of ?e1 initial contacts 0]
  from w1 1
  have "\<exists>t. token ?s1 = Some t
           \<and> requestInterceptor ?e1 contacts initial =
               (Return (contacts\<lparr>authorization := Some (''Bearer '' @ template (access_token t))\<rparr>), ?s1)"
    by blast
  then have a: "requestInterceptor ?e1 contacts initial
     = (Return (contacts\<lparr>authorization := Some ''Bearer A1''\<rparr>), ?s1)"
    by auto
  from authorization_header [of ?e2 initial contacts 0] 2
  have b: "request (Suc 0) ?e2 contacts initial = Some (Throw AuthenticationFailure, ?s2)"
    by blast
  have "tokenEndpoint ?e1 (length (posts initial)) ClientCredentials
          = TokenReply 200 (Fields \<lparr>resp_access_token = Some ''A1'', resp_refresh_token = None,
                                    resp_expires_in = Num 3600, resp_token_type = None\<rparr>)
        \<and> validateStatus 200"
    by (simp add: world_def granted_def validateStatus_def)
  with w1 have c: "\<exists>s' t. getAccessToken ?e1 initial = (Return (), s')
         \<and> token s' = Some t \<and> token_type t = ''Bearer''"
    by fastforce
  have "token ?h = Some \<lparr>access_token = Some ''A1'', refresh_token = Some ''R1'',
                          expires_at = Num 0, token_type = ''Bearer''\<rparr>
        \<and> refresh_token \<lparr>access_token = Some ''A1'', refresh_token = Some ''R1'',
                          expires_at = Num 0, token_type = ''Bearer''\<rparr> = Some ''R1''
        \<and> ''R1'' \<noteq> []
        \<and> tokenEndpoint ?e3 (length (posts ?h)) (RefreshTokenGrant ''R1'')
          = TokenReply 200 (Fields \<lparr>resp_access_token = Some ''A2'', resp_refresh_token = None,
                                    resp_expires_in = Num 1800, resp_token_type = Some ''mac''\<rparr>)
        \<and> validateStatus 200"
    by (simp add: world_def granted_def validateStatus_def holding_def)
  with authorization_header [of ?e3 ?h contacts 0]
  have d: "\<exists>s' t. refreshToken ?e3 ?h = (Return (), s') \<and> token s' = Some t \<and> token_type t = ''mac''"
    by fastforce
  from a b c d show ?thesis by blast
qed

section \<open>A 401 without a refresh token\<close>

text \<open>
  C8. When the request that left the request interceptor is answered with 401 and no
  refresh token is stored at that moment (no Credential, no \<open>refresh_token\<close>, or an empty
  one), \<open>request\<close> rejects with that 401, whatever bound it was given: the request went
  on the wire once, there is no replay, and the POSTs to the token endpoint are those made
  before the request was sent, so \<open>refreshToken\<close> was not called.
\<close>

theorem unauthorized_without_refresh_token:
  assumes "requestInterceptor e config s = (Return c1, s1)"
    and "transport e (length (sent s1)) c1 = ApiReply 401 body"
    and "\<not> refresh_token_known s1"
  shows "request (Suc k) e config s
           = Some (Throw (AxiosError (Some 401) c1), s1\<lparr>sent := sent s1 @ [c1]\<rparr>)"
  using assms
  by (simp add: dispatchRequest_unfold validateStatus_def responseRejected_other refresh_token_known_def)

theorem unauthorized_without_refresh_token_witness:
  "request (Suc (Suc (Suc 0)))
       (world noon (granted ''A1'' None 3600 (Some ''Bearer'')) TokenNetworkError (always 401))
       contacts initial
     = Some (Throw (AxiosError (Some 401) (contacts\<lparr>authorization := Some ''Bearer A1''\<rparr>)),
        \<lparr>token = Some \<lparr>access_token = Some ''A1'', refresh_token = None,
                       expires_at = Num 4540000, token_type = ''Bearer''\<rparr>,
         ticks = 1, posts = [ClientCredentials],
         sent = [contacts\<lparr>authorization := Some ''Bearer A1''\<rparr>]\<rparr>)"
proof -
  let ?e = "world noon (granted ''A1'' None 3600 (Some ''Bearer'')) TokenNetworkError (always 401)"
  let ?s1 = "\<lparr>token = Some \<lparr>access_token = Some ''A1'', refresh_token = None,
                       expires_at = Num 4540000, token_type = ''Bearer''\<rparr>,
         ticks = 1, posts = [ClientCredentials], sent = []\<rparr>"
  let ?c1 = "contacts\<lparr>authorization := Some ''Bearer A1''\<rparr>"
  have 1: "requestInterceptor ?e contacts initial = (Return ?c1, ?s1)"
    by (simp add: world_defs code_defs chain_defs)
  have 2: "transport ?e (length (sent ?s1)) ?c1 = ApiReply 401 []"
    by (simp add: world_def always_def)
  have 3: "\<not> refresh_token_known ?s1"
    by (simp add: refresh_token_known_def)
  from unauthorized_without_refresh_token [OF 1 2 3, of "Suc (Suc 0)"]
  show ?thesis by simp
qed

section \<open>A failed acquisition\<close>

text \<open>
  C9 says that every acquisition that fails, by a network error, a non-2xx status or a
  malformed body, raises the AuthenticationFailure and leaves the stored Credential as it
  was. The code checks nothing in the body: a 2xx answer whose body has none of the expected
  properties is no failure for \<open>getAccessToken\<close>, which returns normally and stores a
  Credential without access token and with the expiry \<open>NaN\<close>.
\<close>

theorem acquisition_failure_counterexample:
  "ensureValidToken
       (world noon (TokenReply 200 (Fields \<lparr>resp_access_token = None, resp_refresh_token = None,
                                             resp_expires_in = NaN, resp_token_type = None\<rparr>))
              TokenNetworkError (always 200))
       initial
     = (Return (),
        \<lparr>token = Some \<lparr>access_token = None, refresh_token = None, expires_at = NaN,
                       token_type = ''Bearer''\<rparr>,
         ticks = 1, posts = [ClientCredentials], sent = []\<rparr>)"
  by (simp add: world_defs code_defs)

text \<open>
  C9, amended. An acquisition raises the AuthenticationFailure exactly when its POST is
  rejected (a network error or a status outside 200..299) or its response data is
  \<open>null\<close>; the stored Credential is then unchanged. \<open>ensureValidToken\<close> raises that
  error to its caller on each of its three ways into an acquisition: with no Credential
  stored (and none is stored then), with an expired Credential that has no refresh token,
  and with an expired Credential whose refresh fails before the acquisition does. It raises
  nothing else, and never changes the stored Credential when it raises. The acquisition
  that the 401 handler of the response interceptor falls back to is not made through
  \<open>ensureValidToken\<close>: its AuthenticationFailure is caught by the handler, and what is
  rejected is the 401 error of the request.
\<close>

theorem acquisition_failure:
  "(post_fails e ClientCredentials s \<longrightarrow>
      getAccessToken e s
        = (Throw AuthenticationFailure, s\<lparr>posts := posts s @ [ClientCredentials]\<rparr>))
   \<and> (\<forall>err s'. getAccessToken e s = (Throw err, s') \<longrightarrow>
         err = AuthenticationFailure \<and> token s' = token s \<and> post_fails e ClientCredentials s)
   \<and> (token s = None \<and> post_fails e ClientCredentials s \<longrightarrow>
         ensureValidToken e s
           = (Throw AuthenticationFailure, s\<lparr>posts := posts s @ [ClientCredentials]\<rparr>))
   \<and> (\<forall>t. token s = Some t \<and> num_ge (Num (of_int (dateNow e (ticks s)))) (expires_at t)
           \<and> \<not> truthy (refresh_token t) \<and> post_fails e ClientCredentials s \<longrightarrow>
         ensureValidToken e s
           = (Throw AuthenticationFailure,
              s\<lparr>ticks := Suc (ticks s), posts := posts s @ [ClientCredentials]\<rparr>))
   \<and> (\<forall>t r. token s = Some t \<and> num_ge (Num (of_int (dateNow e (ticks s)))) (expires_at t)
           \<and> refresh_token t = Some r \<and> r \<noteq> []
           \<and> post_fails e (RefreshTokenGrant r) s
           \<and> post_fails e ClientCredentials (s\<lparr>posts := posts s @ [RefreshTokenGrant r]\<rparr>) \<longrightarrow>
         ensureValidToken e s
           = (Throw AuthenticationFailure,
              s\<lparr>ticks := Suc (ticks s),
                posts := posts s @ [RefreshTokenGrant r, ClientCredentials]\<rparr>))
   \<and> (\<forall>err s'. ensureValidToken e s = (Throw err, s') \<longrightarrow>
         err = AuthenticationFailure \<and> token s' = token s \<and> acquisition_failed e s')
   \<and> (\<forall>t r c. token s = Some t \<and> refresh_token t = Some r \<and> r \<noteq> []
           \<and> post_fails e (RefreshTokenGrant r) s
           \<and> post_fails e ClientCredentials (s\<lparr>posts := posts s @ [RefreshTokenGrant r]\<rparr>) \<longrightarrow>
         responseRejected retry e (AxiosError (Some 401) c) s
           = Some (Throw (AxiosError (Some 401) c),
                   s\<lparr>posts := posts s @ [RefreshTokenGrant r, ClientCredentials]\<rparr>))"
proof -
  have c1: "post_fails e ClientCredentials s \<longrightarrow>
      getAccessToken e s
        = (Throw AuthenticationFailure, s\<lparr>posts := posts s @ [ClientCredentials]\<rparr>)"
    by (simp add: getAccessToken_fails)
  have c2: "\<forall>err s'. getAccessToken e s = (Throw err, s') \<longrightarrow>
         err = AuthenticationFailure \<and> token s' = token s \<and> post_fails e ClientCredentials s"
  proof (intro allI impI)
    fix err s' assume t: "getAccessToken e s = (Throw err, s')"
    from getAccessToken_Throw [OF t] have a: "err = AuthenticationFailure \<and> token s' = token s"
      by simp
    from post_cases [of e ClientCredentials s] have "post_fails e ClientCredentials s"
    proof
      assume "post_fails e ClientCredentials s" then show ?thesis .
    next
      assume "\<exists>st d. tokenEndpoint e (length (posts s)) ClientCredentials = TokenReply st (Fields d)
                \<and> validateStatus st"
      then obtain st d where
        "tokenEndpoint e (length (posts s)) ClientCredentials = TokenReply st (Fields d)"
        and "validateStatus st" by blast
      from getAccessToken_succeeds [OF this] t show ?thesis by simp
    qed
    with a show "err = AuthenticationFailure \<and> token s' = token s \<and> post_fails e ClientCredentials s"
      by simp
  qed
  have c3: "token s = None \<and> post_fails e ClientCredentials s \<longrightarrow>
         ensureValidToken e s
           = (Throw AuthenticationFailure, s\<lparr>posts := posts s @ [ClientCredentials]\<rparr>)"
    by (simp add: ensureValidToken_unfold getAccessToken_fails)
  have c4: "\<forall>t. token s = Some t \<and> num_ge (Num (of_int (dateNow e (ticks s)))) (expires_at t)
           \<and> \<not> truthy (refresh_token t) \<and> post_fails e ClientCredentials s \<longrightarrow>
         ensureValidToken e s
           = (Throw AuthenticationFailure,
              s\<lparr>ticks := Suc (ticks s), posts := posts s @ [ClientCredentials]\<rparr>)"
  proof (intro allI impI)
    fix t
    assume a: "token s = Some t \<and> num_ge (Num (of_int (dateNow e (ticks s)))) (expires_at t)
             \<and> \<not> truthy (refresh_token t) \<and> post_fails e ClientCredentials s"
    then have "post_fails e ClientCredentials (s\<lparr>ticks := Suc (ticks s)\<rparr>)"
      by (simp add: post_fails_def)
    from getAccessToken_fails [OF this] a
    show "ensureValidToken e s
             = (Throw AuthenticationFailure,
                s\<lparr>ticks := Suc (ticks s), posts := posts s @ [ClientCredentials]\<rparr>)"
      by (simp add: ensureValidToken_unfold)
  qed
  have c5: "\<forall>t r. token s = Some t \<and> num_ge (Num (of_int (dateNow e (ticks s)))) (expires_at t)
           \<and> refresh_token t = Some r \<and> r \<noteq> []
           \<and> post_fails e (RefreshTokenGrant r) s
           \<and> post_fails e ClientCredentials (s\<lparr>posts := posts s @ [RefreshTokenGrant r]\<rparr>) \<longrightarrow>
         ensureValidToken e s
           = (Throw AuthenticationFailure,
              s\<lparr>ticks := Suc (ticks s),
                posts := posts s @ [RefreshTokenGrant r, ClientCredentials]\<rparr>)"
  proof (intro allI impI)
    fix t r
    assume a: "token s = Some t \<and> num_ge (Num (of_int (dateNow e (ticks s)))) (expires_at t)
             \<and> refresh_token t = Some r \<and> r \<noteq> []
             \<and> post_fails e (RefreshTokenGrant r) s
             \<and> post_fails e ClientCredentials (s\<lparr>posts := posts s @ [RefreshTokenGrant r]\<rparr>)"
    let ?s1 = "s\<lparr>ticks := Suc (ticks s)\<rparr>"
    from a have t: "token ?s1 = Some t" and r: "refresh_token t = Some r" and n: "r \<noteq> []"
      and f: "post_fails e (RefreshTokenGrant r) ?s1"
      and g: "post_fails e ClientCredentials (?s1\<lparr>posts := posts ?s1 @ [RefreshTokenGrant r]\<rparr>)"
      by (simp_all add: post_fails_def)
    from refreshToken_fallback [OF t r n f] getAccessToken_fails [OF g]
    have "refreshToken e ?s1
            = (Throw AuthenticationFailure,
               s\<lparr>ticks := Suc (ticks s),
                 posts := posts s @ [RefreshTokenGrant r, ClientCredentials]\<rparr>)"
      by simp
    with a show "ensureValidToken e s
             = (Throw AuthenticationFailure,
                s\<lparr>ticks := Suc (ticks s),
                  posts := posts s @ [RefreshTokenGrant r, ClientCredentials]\<rparr>)"
      by (simp add: ensureValidToken_unfold)
  qed
  have c6: "\<forall>err s'. ensureValidToken e s = (Throw err, s') \<longrightarrow>
         err = AuthenticationFailure \<and> token s' = token s \<and> acquisition_failed e s'"
    using ensureValidToken_Throw [of e s] by blast
  have c7: "\<forall>t r c. token s = Some t \<and> refresh_token t = Some r \<and> r \<noteq> []
           \<and> post_fails e (RefreshTokenGrant r) s
           \<and> post_fails e ClientCredentials (s\<lparr>posts := posts s @ [RefreshTokenGrant r]\<rparr>) \<longrightarrow>
         responseRejected retry e (AxiosError (Some 401) c) s
           = Some (Throw (AxiosError (Some 401) c),
                   s\<lparr>posts := posts s @ [RefreshTokenGrant r, ClientCredentials]\<rparr>)"
  proof (intro allI impI)
    fix t r c
    assume a: "token s = Some t \<and> refresh_token t = Some r \<and> r \<noteq> []
             \<and> post_fails e (RefreshTokenGrant r) s
             \<and> post_fails e ClientCredentials (s\<lparr>posts := posts s @ [RefreshTokenGrant r]\<rparr>)"
    then have t: "token s = Some t" and r: "refresh_token t = Some r" and n: "r \<noteq> []"
      and f: "post_fails e (RefreshTokenGrant r) s"
      and g: "post_fails e ClientCredentials (s\<lparr>posts := posts s @ [RefreshTokenGrant r]\<rparr>)"
      by simp_all
    from t r n have k: "refresh_token_known s" by (simp add: refresh_token_known_def)
    from refreshToken_fallback [OF t r n f] getAccessToken_fails [OF g]
    have "refreshToken e s
            = (Throw AuthenticationFailure,
               s\<lparr>posts := posts s @ [RefreshTokenGrant r, ClientCredentials]\<rparr>)"
      by simp
    then show "responseRejected retry e (AxiosError (Some 401) c) s
             = Some (Throw (AxiosError (Some 401) c),
                     s\<lparr>posts := posts s @ [RefreshTokenGrant r, ClientCredentials]\<rparr>)"
      by (simp add: responseRejected_401 [OF k])
  qed
  show ?thesis
    by (intro conjI) (rule c1, rule c2, rule c3, rule c4, rule c5, rule c6, rule c7)
qed

theorem acquisition_failure_witness:
  "ensureValidToken (world noon (TokenReply 500 (Fields refusal)) TokenNetworkError (always 200))
       initial
     = (Throw AuthenticationFailure,
        \<lparr>token = None, ticks = 0, posts = [ClientCredentials], sent = []\<rparr>)
   \<and> getAccessToken (world noon TokenNetworkError TokenNetworkError (always 200))
        (holding ''A1'' None 0)
     = (Throw AuthenticationFailure,
        \<lparr>token = Some \<lparr>access_token = Some ''A1'', refresh_token = None, expires_at = Num 0,
                       token_type = ''Bearer''\<rparr>,
         ticks = 0, posts = [ClientCredentials], sent = []\<rparr>)
   \<and> ensureValidToken (world noon (TokenReply 200 NullData) TokenNetworkError (always 200))
        (holding ''A1'' None 0)
     = (Throw AuthenticationFailure,
        \<lparr>token = Some \<lparr>access_token = Some ''A1'', refresh_token = None, expires_at = Num 0,
                       token_type = ''Bearer''\<rparr>,
         ticks = 1, posts = [ClientCredentials], sent = []\<rparr>)
   \<and> ensureValidToken (world noon (TokenReply 500 (Fields refusal)) (TokenReply 400 (Fields refusal))
                          (always 200))
        (holding ''A1'' (Some ''R1'') 0)
     = (Throw AuthenticationFailure,
        \<lparr>token = Some \<lparr>access_token = Some ''A1'', refresh_token = Some ''R1'',
                       expires_at = Num 0, token_type = ''Bearer''\<rparr>,
         ticks = 1, posts = [RefreshTokenGrant ''R1'', ClientCredentials], sent = []\<rparr>)
   \<and> responseRejected (\<lambda>c s'. request (Suc 0)
                          (world noon (TokenReply 500 (Fields refusal))
                             (TokenReply 400 (Fields refusal)) (always 401)) c s')
        (world noon (TokenReply 500 (Fields refusal)) (TokenReply 400 (Fields refusal)) (always 401))
        (AxiosError (Some 401) contacts) (holding ''A1'' (Some ''R1'') 2000000)
     = Some (Throw (AxiosError (Some 401) contacts),
        \<lparr>token = Some \<lparr>access_token = Some ''A1'', refresh_token = Some ''R1'',
                       expires_at = Num 2000000, token_type = ''Bearer''\<rparr>,
         ticks = 0, posts = [RefreshTokenGrant ''R1'', ClientCredentials], sent = []\<rparr>)"
proof -
  let ?e1 = "world noon (TokenReply 500 (Fields refusal)) TokenNetworkError (always 200)"
  let ?e2 = "world noon TokenNetworkError TokenNetworkError (always 200)"
  let ?e3 = "world noon (TokenReply 200 NullData) TokenNetworkError (always 200)"
  let ?e4 = "world noon (TokenReply 500 (Fields refusal)) (TokenReply 400 (Fields refusal)) (always 200)"
  let ?e5 = "world noon (TokenReply 500 (Fields refusal)) (TokenReply 400 (Fields refusal)) (always 401)"
  let ?t0 = "\<lparr>access_token = Some ''A1'', refresh_token = None, expires_at = Num 0,
              token_type = ''Bearer''\<rparr>"
  let ?t1 = "\<lparr>access_token = Some ''A1'', refresh_token = Some ''R1'', expires_at = Num 0,
              token_type = ''Bearer''\<rparr>"
  let ?t2 = "\<lparr>access_token = Some ''A1'', refresh_token = Some ''R1'', expires_at = Num 2000000,
              token_type = ''Bearer''\<rparr>"
  let ?h0 = "holding ''A1'' None 0"
  let ?h1 = "holding ''A1'' (Some ''R1'') 0"
  let ?h2 = "holding ''A1'' (Some ''R1'') 2000000"
  have 1: "token initial = None \<and> post_fails ?e1 ClientCredentials initial"
    by (simp add: initial_def post_fails_def world_def validateStatus_def)
  have 2: "post_fails ?e2 ClientCredentials ?h0"
    by (simp add: post_fails_def world_def)
  have 3: "token ?h0 = Some ?t0 \<and> num_ge (Num (of_int (dateNow ?e3 (ticks ?h0)))) (expires_at ?t0)
           \<and> \<not> truthy (refresh_token ?t0) \<and> post_fails ?e3 ClientCredentials ?h0"
    by (simp add: holding_def post_fails_def world_def noon_def validateStatus_def)
  have 4: "token ?h1 = Some ?t1 \<and> num_ge (Num (of_int (dateNow ?e4 (ticks ?h1)))) (expires_at ?t1)
           \<and> refresh_token ?t1 = Some ''R1'' \<and> ''R1'' \<noteq> []
           \<and> post_fails ?e4 (RefreshTokenGrant ''R1'') ?h1
           \<and> post_fails ?e4 ClientCredentials (?h1\<lparr>posts := posts ?h1 @ [RefreshTokenGrant ''R1'']\<rparr>)"
    by (simp add: holding_def post_fails_def world_def noon_def validateStatus_def)
  have 5: "token ?h2 = Some ?t2 \<and> refresh_token ?t2 = Some ''R1'' \<and> ''R1'' \<noteq> []
           \<and> post_fails ?e5 (RefreshTokenGrant ''R1'') ?h2
           \<and> post_fails ?e5 ClientCredentials (?h2\<lparr>posts := posts ?h2 @ [RefreshTokenGrant ''R1'']\<rparr>)"
    by (simp add: holding_def post_fails_def world_def validateStatus_def)
  from acquisition_failure [of ?e1 initial] 1
  have a: "ensureValidToken ?e1 initial
             = (Throw AuthenticationFailure, initial\<lparr>posts := posts initial @ [ClientCredentials]\<rparr>)"
    by blast
  from acquisition_failure [of ?e2 ?h0] 2
  have b: "getAccessToken ?e2 ?h0
             = (Throw AuthenticationFailure, ?h0\<lparr>posts := posts ?h0 @ [ClientCredentials]\<rparr>)"
    by blast
  from acquisition_failure [of ?e3 ?h0] 3
  have c: "ensureValidToken ?e3 ?h0
             = (Throw AuthenticationFailure,
                ?h0\<lparr>ticks := Suc (ticks ?h0), posts := posts ?h0 @ [ClientCredentials]\<rparr>)"
    by blast
  from acquisition_failure [of ?e4 ?h1] 4
  have d: "ensureValidToken ?e4 ?h1
             = (Throw AuthenticationFailure,
                ?h1\<lparr>ticks := Suc (ticks ?h1),
                    posts := posts ?h1 @ [RefreshTokenGrant ''R1'', ClientCredentials]\<rparr>)"
    by blast
  from acquisition_failure [of ?e5 ?h2 "\<lambda>c s'. request (Suc 0) ?e5 c s'"] 5
  have f: "responseRejected (\<lambda>c s'. request (Suc 0) ?e5 c s') ?e5 (AxiosError (Some 401) contacts) ?h2
             = Some (Throw (AxiosError (Some 401) contacts),
                     ?h2\<lparr>posts := posts ?h2 @ [RefreshTokenGrant ''R1'', ClientCredentials]\<rparr>)"
    by blast
  from a b c d f show ?thesis
    by (simp add: initial_def holding_def)
qed

section \<open>The limit of the list and search tools\<close>

text \<open>
  C10. Take a call of one of the eight tools with an argument object \<open>a\<close>, at a moment
  when \<open>ensureValidToken\<close> succeeds, and let the API answer the request with a status in
  200..299 and a body other than \<open>null\<close>. Then the call returns the result made of that
  answer, and has put exactly one
  request on the wire: its only \<open>limit\<close> parameter is \<open>min(limit, 200)\<close> when the limit
  of \<open>a\<close> is a number other than zero, and it has no \<open>limit\<close> parameter when the limit
  is absent or zero. Whatever the API answers, once the call has settled the first request
  on the wire and every replay of it have that \<open>limit\<close> parameter; and in every call,
  with or without an argument object and whether or not a token could be had, every
  request put on the wire has the \<open>limit\<close> parameter that the specification words.
\<close>

theorem limit_forwarded:
  "(\<forall>s1 st body n. limit a = Some (Num n) \<and> n \<noteq> 0
        \<and> ensureValidToken e s = (Return (), s1)
        \<and> (\<forall>q. transport e (length (sent s1)) q = ApiReply st body) \<and> validateStatus st
        \<and> \<not> data_is_null body \<longrightarrow>
      (\<exists>q. callTool t (Suc k) e (Some a) s
              = Some (Return (Content \<lparr>status = st, payload = body\<rparr>),
                      s1\<lparr>sent := sent s1 @ [q]\<rparr>)
           \<and> sent s1 = sent s
           \<and> limit_params q = [(''limit'', PNum (Num (min n 200)))]))
   \<and> (\<forall>s1 st body. (limit a = None \<or> limit a = Some (Num 0))
        \<and> ensureValidToken e s = (Return (), s1)
        \<and> (\<forall>q. transport e (length (sent s1)) q = ApiReply st body) \<and> validateStatus st
        \<and> \<not> data_is_null body \<longrightarrow>
      (\<exists>q. callTool t (Suc k) e (Some a) s
              = Some (Return (Content \<lparr>status = st, payload = body\<rparr>),
                      s1\<lparr>sent := sent s1 @ [q]\<rparr>)
           \<and> sent s1 = sent s
           \<and> limit_params q = []))
   \<and> (\<forall>r s' s1. callTool t k e (Some a) s = Some (r, s')
        \<and> ensureValidToken e s = (Return (), s1) \<longrightarrow>
      (\<exists>q rest. sent s' = sent s @ q # rest
         \<and> list_all (\<lambda>q. limit_params q = claimed_limit (Some a)) (q # rest)))
   \<and> (\<forall>r s'. callTool t k e args s = Some (r, s') \<longrightarrow>
      (\<exists>qs. sent s' = sent s @ qs
         \<and> list_all (\<lambda>q. limit_params q = claimed_limit args) qs))
   \<and> (\<forall>n. limit a = Some (Num n) \<and> n \<noteq> 0 \<longrightarrow>
        claimed_limit (Some a) = [(''limit'', PNum (Num (min n 200)))])
   \<and> (limit a = None \<or> limit a = Some (Num 0) \<longrightarrow> claimed_limit (Some a) = [])
   \<and> claimed_limit None = []"
proof (intro conjI allI impI)
  fix s1 st body n
  assume h: "limit a = Some (Num n) \<and> n \<noteq> 0
        \<and> ensureValidToken e s = (Return (), s1)
        \<and> (\<forall>q. transport e (length (sent s1)) q = ApiReply st body) \<and> validateStatus st
        \<and> \<not> data_is_null body"
  then have ev: "ensureValidToken e s = (Return (), s1)"
    and tr: "\<forall>q. transport e (length (sent s1)) q = ApiReply st body"
    and v: "validateStatus st" and nn: "\<not> data_is_null body" by simp_all
  from h have l: "claimed_limit (Some a) = [(''limit'', PNum (Num (min n 200)))]"
    by (simp add: claimed_limit_def)
  from ensureValidToken_sent [of e s] ev have "sent s1 = sent s" by simp
  with callTool_answered [OF ev tr v nn, of t k a] l
  show "\<exists>q. callTool t (Suc k) e (Some a) s
              = Some (Return (Content \<lparr>status = st, payload = body\<rparr>),
                      s1\<lparr>sent := sent s1 @ [q]\<rparr>)
           \<and> sent s1 = sent s
           \<and> limit_params q = [(''limit'', PNum (Num (min n 200)))]"
    by auto
next
  fix s1 st body
  assume h: "(limit a = None \<or> limit a = Some (Num 0))
        \<and> ensureValidToken e s = (Return (), s1)
        \<and> (\<forall>q. transport e (length (sent s1)) q = ApiReply st body) \<and> validateStatus st
        \<and> \<not> data_is_null body"
  then have ev: "ensureValidToken e s = (Return (), s1)"
    and tr: "\<forall>q. transport e (length (sent s1)) q = ApiReply st body"
    and v: "validateStatus st" and nn: "\<not> data_is_null body" by simp_all
  from h have l: "claimed_limit (Some a) = []"
    by (auto simp: claimed_limit_def)
  from ensureValidToken_sent [of e s] ev have "sent s1 = sent s" by simp
  with callTool_answered [OF ev tr v nn, of t k a] l
  show "\<exists>q. callTool t (Suc k) e (Some a) s
              = Some (Return (Content \<lparr>status = st, payload = body\<rparr>),
                      s1\<lparr>sent := sent s1 @ [q]\<rparr>)
           \<and> sent s1 = sent s
           \<and> limit_params q = []"
    by auto
next
  fix r s' s1
  assume "callTool t k e (Some a) s = Some (r, s') \<and> ensureValidToken e s = (Return (), s1)"
  then have c: "callTool t k e (Some a) s = Some (r, s')"
    and ev: "ensureValidToken e s = (Return (), s1)" by simp_all
  from callTool_sent_first [OF c ev]
  show "\<exists>q rest. sent s' = sent s @ q # rest
         \<and> list_all (\<lambda>q. limit_params q = claimed_limit (Some a)) (q # rest)" .
next
  fix r s' assume "callTool t k e args s = Some (r, s')"
  then show "\<exists>qs. sent s' = sent s @ qs
         \<and> list_all (\<lambda>q. limit_params q = claimed_limit args) qs"
    by (rule callTool_sent)
next
  fix n assume "limit a = Some (Num n) \<and> n \<noteq> 0"
  then show "claimed_limit (Some a) = [(''limit'', PNum (Num (min n 200)))]"
    by (simp add: claimed_limit_def)
next
  assume "limit a = None \<or> limit a = Some (Num 0)"
  then show "claimed_limit (Some a) = []" by (auto simp: claimed_limit_def)
next
  show "claimed_limit None = []" by (simp add: claimed_limit_def)
qed

theorem limit_forwarded_witness:
  "(\<exists>q. callTool get_segment_contacts (Suc 0)
           (world noon (granted ''A1'' None 3600 None) TokenNetworkError (always 200))
           (Some (no_args\<lparr>limit := Some (Num 500), segmentId := Some (Num 7)\<rparr>)) initial
         = Some (Return (Content \<lparr>status = 200, payload = []\<rparr>),
                 \<lparr>token = Some \<lparr>access_token = Some ''A1'', refresh_token = None,
                                expires_at = Num 4540000, token_type = ''Bearer''\<rparr>,
                  ticks = 1, posts = [ClientCredentials], sent = [q]\<rparr>)
       \<and> limit_params q = [(''limit'', PNum (Num 200))])
   \<and> (\<exists>q. callTool search_contacts (Suc 0)
           (world noon (granted ''A1'' None 3600 None) TokenNetworkError (always 200))
           (Some (no_args\<lparr>limit := Some (Num 25), search := Some ''gmail''\<rparr>)) initial
         = Some (Return (Content \<lparr>status = 200, payload = []\<rparr>),
                 \<lparr>token = Some \<lparr>access_token = Some ''A1'', refresh_token = None,
                                expires_at = Num 4540000, token_type = ''Bearer''\<rparr>,
                  ticks = 1, posts = [ClientCredentials], sent = [q]\<rparr>)
       \<and> limit_params q = [(''limit'', PNum (Num 25))])
   \<and> (\<exists>q. callTool list_segments (Suc 0)
           (world noon (granted ''A1'' None 3600 None) TokenNetworkError (always 200))
           (Some (no_args\<lparr>limit := Some (Num 0)\<rparr>)) initial
         = Some (Return (Content \<lparr>status = 200, payload = []\<rparr>),
                 \<lparr>token = Some \<lparr>access_token = Some ''A1'', refresh_token = None,
                                expires_at = Num 4540000, token_type = ''Bearer''\<rparr>,
                  ticks = 1, posts = [ClientCredentials], sent = [q]\<rparr>)
       \<and> limit_params q = [])
   \<and> callTool get_segment_contacts (Suc 0)
           (world noon (granted ''A1'' None 3600 None) TokenNetworkError (always 200))
           (Some (no_args\<lparr>limit := Some (Num 500), segmentId := Some (Num 7)\<rparr>)) initial
         = Some (Return (Content \<lparr>status = 200, payload = []\<rparr>),
                 \<lparr>token = Some \<lparr>access_token = Some ''A1'', refresh_token = None,
                                expires_at = Num 4540000, token_type = ''Bearer''\<rparr>,
                  ticks = 1, posts = [ClientCredentials],
                  sent = [\<lparr>http_method = ''get'',
                           url = [Lit ''/segments/'', Val (Some (Num 7)), Lit ''/contacts''],
                           params = [(''limit'', PNum (Num 200))],
                           authorization = Some ''Bearer A1''\<rparr>]\<rparr>)"
proof -
  let ?e = "world noon (granted ''A1'' None 3600 None) TokenNetworkError (always 200)"
  let ?s1 = "\<lparr>token = Some \<lparr>access_token = Some ''A1'', refresh_token = None,
                             expires_at = Num 4540000, token_type = ''Bearer''\<rparr>,
              ticks = 1, posts = [ClientCredentials], sent = []\<rparr>"
  let ?a1 = "no_args\<lparr>limit := Some (Num 500), segmentId := Some (Num 7)\<rparr>"
  let ?a2 = "no_args\<lparr>limit := Some (Num 25), search := Some ''gmail''\<rparr>"
  let ?a3 = "no_args\<lparr>limit := Some (Num 0)\<rparr>"
  have ev: "ensureValidToken ?e initial = (Return (), ?s1)"
    by (simp add: world_defs code_defs)
  have tr: "\<forall>q. transport ?e (length (sent ?s1)) q = ApiReply 200 []"
    by (simp add: world_def always_def)
  have v: "validateStatus 200 \<and> \<not> data_is_null []"
    by (simp add: validateStatus_def data_is_null_def)
  have l1: "limit ?a1 = Some (Num 500) \<and> (500::rat) \<noteq> 0" by (simp add: no_args_def)
  have l2: "limit ?a2 = Some (Num 25) \<and> (25::rat) \<noteq> 0" by (simp add: no_args_def)
  have l3: "limit ?a3 = None \<or> limit ?a3 = Some (Num 0)" by (simp add: no_args_def)
  from limit_forwarded [of ?a1 ?e initial get_segment_contacts 0] l1 ev tr v
  have "\<exists>q. callTool get_segment_contacts (Suc 0) ?e (Some ?a1) initial
              = Some (Return (Content \<lparr>status = 200, payload = []\<rparr>), ?s1\<lparr>sent := sent ?s1 @ [q]\<rparr>)
           \<and> sent ?s1 = sent initial
           \<and> limit_params q = [(''limit'', PNum (Num (min 500 200)))]"
    by blast
  then have 1: "\<exists>q. callTool get_segment_contacts (Suc 0) ?e (Some ?a1) initial
              = Some (Return (Content \<lparr>status = 200, payload = []\<rparr>), ?s1\<lparr>sent := [q]\<rparr>)
           \<and> limit_params q = [(''limit'', PNum (Num 200))]"
    by (simp add: initial_def)
  from limit_forwarded [of ?a2 ?e initial search_contacts 0] l2 ev tr v
  have "\<exists>q. callTool search_contacts (Suc 0) ?e (Some ?a2) initial
              = Some (Return (Content \<lparr>status = 200, payload = []\<rparr>), ?s1\<lparr>sent := sent ?s1 @ [q]\<rparr>)
           \<and> sent ?s1 = sent initial
           \<and> limit_params q = [(''limit'', PNum (Num (min 25 200)))]"
    by blast
  then have 2: "\<exists>q. callTool search_contacts (Suc 0) ?e (Some ?a2) initial
              = Some (Return (Content \<lparr>status = 200, payload = []\<rparr>), ?s1\<lparr>sent := [q]\<rparr>)
           \<and> limit_params q = [(''limit'', PNum (Num 25))]"
    by (simp add: initial_def)
  from limit_forwarded [of ?a3 ?e initial list_segments 0] l3 ev tr v
  have "\<exists>q. callTool list_segments (Suc 0) ?e (Some ?a3) initial
              = Some (Return (Content \<lparr>status = 200, payload = []\<rparr>), ?s1\<lparr>sent := sent ?s1 @ [q]\<rparr>)
           \<and> sent ?s1 = sent initial
           \<and> limit_params q = []"
    by blast
  then have 3: "\<exists>q. callTool list_segments (Suc 0) ?e (Some ?a3) initial
              = Some (Return (Content \<lparr>status = 200, payload = []\<rparr>), ?s1\<lparr>sent := [q]\<rparr>)
           \<and> limit_params q = []"
    by (simp add: initial_def)
  have 4: "callTool get_segment_contacts (Suc 0) ?e (Some ?a1) initial
         = Some (Return (Content \<lparr>status = 200, payload = []\<rparr>),
                 ?s1\<lparr>sent := [\<lparr>http_method = ''get'',
                           url = [Lit ''/segments/'', Val (Some (Num 7)), Lit ''/contacts''],
                           params = [(''limit'', PNum (Num 200))],
                           authorization = Some ''Bearer A1''\<rparr>]\<rparr>)"
    by (simp add: callTool_def getSegmentContacts_def getSegmentContacts_config_def
          axiosInstance_get_def text_content_def data_is_null_def no_args_def Math_min_def
          world_defs code_defs chain_defs)
  from 1 2 3 4 show ?thesis by simp
qed

end
